theory Spec2Isabelle
  imports Complex_Main "HOL-Library.Word"
begin

section \<open>Data model of \<open>IOffloadManager.hpp\<close>\<close>

text \<open>
  \<open>size_t\<close> is taken as a 64-bit unsigned integer (an LP64 target), so \<open>+\<close>, \<open>-\<close> and
  \<open>*\<close> wrap modulo \<open>2 ^ 64\<close> and \<open><\<close> compares unsigned values.  A
  \<open>steady_clock::time_point\<close> is the signed tick count since the clock's epoch, one tick
  being a nanosecond; a default-constructed time point is tick \<open>0\<close>.  The \<open>double\<close> fields
  are carried as reals: conversions and divisions are exact here, rounding is not modelled.
\<close>

type_synonym size_t = "64 word"
type_synonym time_point = int

datatype OffloadStatus =
  Idle | Preparing | Transferring | Completing | Completed | Failed | Cancelled | Paused

datatype NodeHealth = Healthy | Degraded | Unhealthy | Unknown

record TargetNode =
  node_id :: string
  host :: string
  port :: "16 word"
  cluster_id :: string
  region :: string
  total_storage_bytes :: size_t
  available_storage_bytes :: size_t
  used_storage_bytes :: size_t
  cpu_usage_percent :: real
  memory_usage_percent :: real
  network_utilization_percent :: real
  health :: NodeHealth
  accepting_offloads :: bool
  active_offload_count :: size_t
  max_concurrent_offloads :: size_t
  last_health_check :: time_point
  last_successful_offload :: time_point

text \<open>The member initialisers of \<open>struct TargetNode\<close>.\<close>

definition default_TargetNode :: TargetNode where
  "default_TargetNode =
     \<lparr> node_id = [], host = [], port = 5432, cluster_id = [], region = [],
       total_storage_bytes = 0, available_storage_bytes = 0, used_storage_bytes = 0,
       cpu_usage_percent = 0, memory_usage_percent = 0, network_utilization_percent = 0,
       health = Unknown, accepting_offloads = True,
       active_offload_count = 0, max_concurrent_offloads = 10,
       last_health_check = 0, last_successful_offload = 0 \<rparr>"

definition can_accept_offload :: "TargetNode \<Rightarrow> bool" where
  "can_accept_offload n \<longleftrightarrow>
     accepting_offloads n \<and> health n = Healthy \<and>
     active_offload_count n < max_concurrent_offloads n"

text \<open>Durations are tick counts of their own unit: seconds, milliseconds.\<close>

record OffloadConfig =
  memory_threshold_percent :: real
  storage_threshold_percent :: real
  min_byte_difference :: size_t
  max_byte_per_transfer :: size_t
  segment_size :: size_t
  max_concurrent_transfers :: size_t
  transfer_buffer_size :: size_t
  connect_timeout :: int
  transfer_timeout :: int
  health_check_interval :: int
  max_retries :: size_t
  retry_delay :: int
  retry_backoff_multiplier :: real
  auto_offload :: bool
  compress_transfers :: bool
  verify_integrity :: bool
  prefer_local_region :: bool
  min_available_storage_bytes :: size_t
  max_target_cpu_usage :: real
  max_target_memory_usage :: real

definition default_OffloadConfig :: OffloadConfig where
  "default_OffloadConfig =
     \<lparr> memory_threshold_percent = 80, storage_threshold_percent = 85,
       min_byte_difference = 100 * 1024 * 1024,
       max_byte_per_transfer = 1024 * 1024 * 1024 * 10,
       segment_size = 1 * 1024 * 1024, max_concurrent_transfers = 4,
       transfer_buffer_size = 64 * 1024,
       connect_timeout = 30, transfer_timeout = 300, health_check_interval = 10,
       max_retries = 3, retry_delay = 1000, retry_backoff_multiplier = 2,
       auto_offload = True, compress_transfers = True, verify_integrity = True,
       prefer_local_region = True,
       min_available_storage_bytes = 1024 * 1024 * 1024,
       max_target_cpu_usage = 80, max_target_memory_usage = 85 \<rparr>"

record OffloadProgress =
  total_bytes :: size_t
  transferred_bytes :: size_t
  pending_bytes :: size_t
  segments_total :: size_t
  segments_completed :: size_t
  segments_failed :: size_t
  segments_pending :: size_t
  start_time :: time_point
  last_update :: time_point
  elapsed :: int
  bytes_per_second :: real
  average_bytes_per_second :: real
  error_message :: "string option"
  current_segment_id :: "string option"

definition default_OffloadProgress :: OffloadProgress where
  "default_OffloadProgress =
     \<lparr> total_bytes = 0, transferred_bytes = 0, pending_bytes = 0,
       segments_total = 0, segments_completed = 0, segments_failed = 0,
       segments_pending = 0, start_time = 0, last_update = 0, elapsed = 0,
       bytes_per_second = 0, average_bytes_per_second = 0,
       error_message = None, current_segment_id = None \<rparr>"

definition progress_percent :: "OffloadProgress \<Rightarrow> real" where
  "progress_percent p =
     (if total_bytes p = 0 then 0
      else 100 * real (unat (transferred_bytes p)) / real (unat (total_bytes p)))"

definition completed_successfully :: "OffloadProgress \<Rightarrow> bool" where
  "completed_successfully p \<longleftrightarrow>
     segments_completed p = segments_total p \<and> 0 < segments_total p \<and>
     error_message p = None"

text \<open>
  \<open>OffloadResult::error_message\<close> is the field \<open>result_error_message\<close>: two records
  cannot share a field name.
\<close>

record OffloadResult =
  success :: bool
  result_error_message :: "string option"
  final_progress :: OffloadProgress
  target_node :: TargetNode
  completed_at :: time_point

definition default_OffloadResult :: OffloadResult where
  "default_OffloadResult =
     \<lparr> success = False, result_error_message = None,
       final_progress = default_OffloadProgress,
       target_node = default_TargetNode, completed_at = 0 \<rparr>"

section \<open>The state of \<open>MockOffloadManager\<close>\<close>

text \<open>
  The four callbacks run while the manager's mutex is held, so they cannot call back into
  the manager; what they can observe is the sequence of calls they receive.  A callback
  field is therefore a flag (is a callable stored?) and every call made to a stored
  callback is appended to \<open>events\<close>, oldest first.

  A hook of type \<open>std::function<bool()>\<close> is \<open>None\<close> when empty and \<open>Some b\<close> when it
  holds a callable that returns \<open>b\<close> at this call; the selection hook receives the node id.
\<close>

datatype Event =
  ProgressEvent OffloadProgress
| CompleteEvent OffloadResult
| ErrorEvent string
| StatusChangeEvent OffloadStatus OffloadStatus

record MockOffloadManager =
  config :: OffloadConfig
  status :: OffloadStatus
  progress :: OffloadProgress
  current_target :: "TargetNode option"
  last_result :: "OffloadResult option"
  available_nodes :: "TargetNode list"
  progress_callback :: bool
  complete_callback :: bool
  error_callback :: bool
  status_change_callback :: bool
  start_hook :: "bool option"
  cancel_hook :: "bool option"
  nodes_hook :: "TargetNode list option"
  select_node_hook :: "(string \<Rightarrow> bool) option"
  offload_data_ids :: "string list"
  events :: "Event list"

definition set_status :: "OffloadStatus \<Rightarrow> MockOffloadManager \<Rightarrow> MockOffloadManager" where
  "set_status new_status m =
     (let old_status = status m;
          m1 = m\<lparr>status := new_status\<rparr>
      in if status_change_callback m1 \<and> old_status \<noteq> new_status
         then m1\<lparr>events := events m1 @ [StatusChangeEvent old_status new_status]\<rparr>
         else m1)"

definition notify_error :: "string \<Rightarrow> MockOffloadManager \<Rightarrow> MockOffloadManager" where
  "notify_error err m =
     (if error_callback m then m\<lparr>events := events m @ [ErrorEvent err]\<rparr> else m)"

text \<open>\<open>duration_cast\<close> between integer tick counts truncates towards zero.\<close>

definition duration_cast :: "int \<Rightarrow> int \<Rightarrow> int" where
  "duration_cast ticks_per_unit d = sgn d * (\<bar>d\<bar> div ticks_per_unit)"

definition notify_progress :: "time_point \<Rightarrow> MockOffloadManager \<Rightarrow> MockOffloadManager" where
  "notify_progress now m =
     (let p1 = (progress m)\<lparr>last_update := now\<rparr>;
          p2 = (if 0 < start_time p1
                then p1\<lparr>elapsed := duration_cast 1000 (last_update p1 - start_time p1)\<rparr>
                else p1);
          m1 = m\<lparr>progress := p2\<rparr>
      in if progress_callback m1
         then m1\<lparr>events := events m1 @ [ProgressEvent p2]\<rparr>
         else m1)"

definition notify_complete :: "bool \<Rightarrow> time_point \<Rightarrow> MockOffloadManager \<Rightarrow> MockOffloadManager" where
  "notify_complete ok now m =
     (let r1 = default_OffloadResult
                 \<lparr>success := ok, final_progress := progress m, completed_at := now\<rparr>;
          r2 = (case current_target m of
                  Some t \<Rightarrow> r1\<lparr>target_node := t\<rparr>
                | None \<Rightarrow> r1);
          r3 = (if \<not> ok \<and> error_message (progress m) \<noteq> None
                then r2\<lparr>result_error_message := error_message (progress m)\<rparr>
                else r2);
          m1 = m\<lparr>last_result := Some r3\<rparr>
      in if complete_callback m1
         then m1\<lparr>events := events m1 @ [CompleteEvent r3]\<rparr>
         else m1)"

definition pause_offload :: "MockOffloadManager \<Rightarrow> bool \<times> MockOffloadManager" where
  "pause_offload m =
     (if status m \<noteq> Transferring
      then (False, notify_error ''Cannot pause: not transferring'' m)
      else (True, set_status Paused m))"

definition resume_offload :: "MockOffloadManager \<Rightarrow> bool \<times> MockOffloadManager" where
  "resume_offload m =
     (if status m \<noteq> Paused
      then (False, notify_error ''Cannot resume: not paused'' m)
      else (True, set_status Transferring m))"


section \<open>Node selection\<close>

text \<open>The loop of \<open>select_target_node\<close>: the first node with the id decides.\<close>

fun select_loop :: "TargetNode list \<Rightarrow> string \<Rightarrow> MockOffloadManager \<Rightarrow> bool \<times> MockOffloadManager" where
  "select_loop [] nid m = (False, notify_error (''Node not found: '' @ nid) m)"
| "select_loop (node # rest) nid m =
     (if node_id node = nid
      then (if \<not> can_accept_offload node
            then (False, notify_error (''Node '' @ nid @ '' cannot accept offloads'') m)
            else (True, m\<lparr>current_target := Some node\<rparr>))
      else select_loop rest nid m)"

definition select_target_node :: "string \<Rightarrow> MockOffloadManager \<Rightarrow> bool \<times> MockOffloadManager" where
  "select_target_node nid m =
     (case select_node_hook m of
        Some hook \<Rightarrow> (hook nid, m)
      | None \<Rightarrow> select_loop (available_nodes m) nid m)"

text \<open>
  The loop of \<open>auto_select_target_node\<close>; \<open>best\<close> is the node the pointer refers to, or
  \<open>None\<close> for the null pointer.
\<close>

fun auto_select_loop :: "TargetNode list \<Rightarrow> TargetNode option \<Rightarrow> TargetNode option" where
  "auto_select_loop [] best = best"
| "auto_select_loop (node # rest) best =
     auto_select_loop rest
       (if can_accept_offload node
        then (case best of
                None \<Rightarrow> Some node
              | Some b \<Rightarrow>
                  if available_storage_bytes b < available_storage_bytes node
                  then Some node else Some b)
        else best)"

definition auto_select_target_node :: "MockOffloadManager \<Rightarrow> bool \<times> MockOffloadManager" where
  "auto_select_target_node m =
     (case auto_select_loop (available_nodes m) None of
        Some b \<Rightarrow> (True, m\<lparr>current_target := Some b\<rparr>)
      | None \<Rightarrow> (False, notify_error ''No suitable target node available'' m))"

definition clear_target_selection :: "MockOffloadManager \<Rightarrow> MockOffloadManager" where
  "clear_target_selection m = m\<lparr>current_target := None\<rparr>"

section \<open>Offload operations\<close>

text \<open>The clock value read by an operation is its argument \<open>now\<close>.\<close>

definition start_offload :: "string list \<Rightarrow> time_point \<Rightarrow> MockOffloadManager \<Rightarrow> bool \<times> MockOffloadManager" where
  "start_offload data_ids now m =
     (case start_hook m of
        Some result \<Rightarrow> (result, if result then set_status Transferring m else m)
      | None \<Rightarrow>
          if current_target m = None
          then (False, notify_error ''No target node selected'' m)
          else if status m \<noteq> Idle \<and> status m \<noteq> Paused
          then (False, notify_error ''Offload already in progress or not in valid state'' m)
          else
            let p = default_OffloadProgress
                      \<lparr>start_time := now, total_bytes := 100 * 1024 * 1024\<rparr>;
                p = p\<lparr>pending_bytes := total_bytes p\<rparr>;
                p = p\<lparr>segments_total := 100, segments_pending := 100\<rparr>;
                m1 = m\<lparr>offload_data_ids := data_ids, progress := p\<rparr>
            in (True, set_status Transferring (set_status Preparing m1)))"

definition cancel_offload :: "time_point \<Rightarrow> MockOffloadManager \<Rightarrow> bool \<times> MockOffloadManager" where
  "cancel_offload now m =
     (case cancel_hook m of
        Some result \<Rightarrow> (result, m)
      | None \<Rightarrow>
          if status m = Idle \<or> status m = Completed \<or> status m = Failed \<or> status m = Cancelled
          then (False, notify_error ''No active offload to cancel'' m)
          else (True, notify_complete False now (set_status Cancelled m)))"

definition is_active :: "MockOffloadManager \<Rightarrow> bool" where
  "is_active m \<longleftrightarrow>
     status m = Preparing \<or> status m = Transferring \<or>
     status m = Completing \<or> status m = Paused"

section \<open>Test helper methods\<close>

definition create_mock_node :: "string \<Rightarrow> string \<Rightarrow> size_t \<Rightarrow> real \<Rightarrow> real \<Rightarrow> time_point \<Rightarrow> TargetNode" where
  "create_mock_node nid h available_storage cpu memory now =
     default_TargetNode
       \<lparr> node_id := nid, host := h, port := 5432,
         cluster_id := ''test-cluster'', region := ''us-east-1'',
         total_storage_bytes := available_storage * 2,
         available_storage_bytes := available_storage,
         used_storage_bytes := available_storage,
         cpu_usage_percent := cpu, memory_usage_percent := memory,
         health := Healthy, accepting_offloads := True,
         active_offload_count := 0, max_concurrent_offloads := 10,
         last_health_check := now \<rparr>"

text \<open>The three default nodes; each \<open>create_mock_node\<close> call reads the clock.\<close>

definition default_nodes :: "time_point \<Rightarrow> time_point \<Rightarrow> time_point \<Rightarrow> TargetNode list" where
  "default_nodes t1 t2 t3 =
     [ create_mock_node ''node1'' ''192.168.1.10'' (100 * 1024 * 1024 * 1024) 30 40 t1,
       create_mock_node ''node2'' ''192.168.1.11'' (200 * 1024 * 1024 * 1024) 30 40 t2,
       create_mock_node ''node3'' ''192.168.1.12'' (50 * 1024 * 1024 * 1024) 30 40 t3 ]"

text \<open>The constructor: the member initialisers, then the default nodes.\<close>

definition new_MockOffloadManager :: "time_point \<Rightarrow> time_point \<Rightarrow> time_point \<Rightarrow> MockOffloadManager" where
  "new_MockOffloadManager t1 t2 t3 =
     \<lparr> config = default_OffloadConfig, status = Idle,
       progress = default_OffloadProgress,
       current_target = None, last_result = None,
       available_nodes = default_nodes t1 t2 t3,
       progress_callback = False, complete_callback = False,
       error_callback = False, status_change_callback = False,
       start_hook = None, cancel_hook = None, nodes_hook = None,
       select_node_hook = None, offload_data_ids = [], events = [] \<rparr>"

definition force_status :: "OffloadStatus \<Rightarrow> MockOffloadManager \<Rightarrow> MockOffloadManager" where
  "force_status st m = set_status st m"

text \<open>
  \<open>simulate_progress\<close> reads the clock twice: \<open>now\<close> for the transfer rate and \<open>now'\<close>
  inside \<open>notify_progress\<close>.  One second is \<open>10 ^ 9\<close> ticks.
\<close>

definition simulate_progress :: "size_t \<Rightarrow> time_point \<Rightarrow> time_point \<Rightarrow> MockOffloadManager \<Rightarrow> MockOffloadManager" where
  "simulate_progress bytes now now' m =
     (let p = progress m;
          p = p\<lparr>transferred_bytes := transferred_bytes p + bytes\<rparr>;
          p = p\<lparr>pending_bytes := total_bytes p - transferred_bytes p\<rparr>;
          p = p\<lparr>segments_completed := segments_completed p + 1\<rparr>;
          p = p\<lparr>segments_pending := segments_total p - segments_completed p\<rparr>;
          secs = duration_cast 1000000000 (now - start_time p);
          p = (if 0 < start_time p \<and> 0 < secs
               then p\<lparr>average_bytes_per_second :=
                        real (unat (transferred_bytes p)) / real_of_int secs\<rparr>
               else p);
          p = p\<lparr>bytes_per_second := real (unat bytes)\<rparr>
      in notify_progress now' (m\<lparr>progress := p\<rparr>))"

definition simulate_complete :: "bool \<Rightarrow> time_point \<Rightarrow> MockOffloadManager \<Rightarrow> MockOffloadManager" where
  "simulate_complete ok now m =
     (if ok
      then
        let p = progress m;
            p = p\<lparr>transferred_bytes := total_bytes p, pending_bytes := 0\<rparr>;
            p = p\<lparr>segments_completed := segments_total p, segments_pending := 0\<rparr>
        in notify_complete ok now
             (set_status Completed (set_status Completing (m\<lparr>progress := p\<rparr>)))
      else notify_complete ok now (set_status Failed m))"

definition simulate_error :: "string \<Rightarrow> time_point \<Rightarrow> MockOffloadManager \<Rightarrow> MockOffloadManager" where
  "simulate_error err now m =
     (let m1 = m\<lparr>progress := (progress m)\<lparr>error_message := Some err\<rparr>\<rparr>
      in notify_complete False now (notify_error err (set_status Failed m1)))"

definition refresh_nodes :: "time_point \<Rightarrow> MockOffloadManager \<Rightarrow> bool \<times> MockOffloadManager" where
  "refresh_nodes now m =
     (True, m\<lparr>available_nodes :=
                 map (\<lambda>node. node\<lparr>last_health_check := now\<rparr>) (available_nodes m)\<rparr>)"

definition remove_node :: "string \<Rightarrow> MockOffloadManager \<Rightarrow> MockOffloadManager" where
  "remove_node nid m =
     m\<lparr>available_nodes := filter (\<lambda>n. node_id n \<noteq> nid) (available_nodes m)\<rparr>"

fun set_health_loop :: "TargetNode list \<Rightarrow> string \<Rightarrow> NodeHealth \<Rightarrow> TargetNode list" where
  "set_health_loop [] nid h = []"
| "set_health_loop (node # rest) nid h =
     (if node_id node = nid then node\<lparr>health := h\<rparr> # rest
      else node # set_health_loop rest nid h)"

definition set_node_health :: "string \<Rightarrow> NodeHealth \<Rightarrow> MockOffloadManager \<Rightarrow> MockOffloadManager" where
  "set_node_health nid h m =
     m\<lparr>available_nodes := set_health_loop (available_nodes m) nid h\<rparr>"

text \<open>\<open>reset\<close> assigns the fields directly and leaves the configuration and the callbacks.\<close>

definition reset :: "time_point \<Rightarrow> time_point \<Rightarrow> time_point \<Rightarrow> MockOffloadManager \<Rightarrow> MockOffloadManager" where
  "reset t1 t2 t3 m =
     m\<lparr> status := Idle, progress := default_OffloadProgress,
        current_target := None, last_result := None, offload_data_ids := [],
        start_hook := None, cancel_hook := None, nodes_hook := None,
        select_node_hook := None,
        available_nodes := default_nodes t1 t2 t3 \<rparr>"

section \<open>The public operations as one step function\<close>

text \<open>
  Every state-changing public method is a constructor of \<open>Op\<close>, with its arguments and
  the clock values it reads; \<open>step\<close> applies it and drops the boolean result, \<open>run\<close>
  applies a sequence of calls from left to right.
\<close>

datatype Op =
  SetConfig OffloadConfig
| RefreshNodes time_point
| SelectTargetNode string
| AutoSelectTargetNode
| ClearTargetSelection
| StartOffload "string list" time_point
| CancelOffload time_point
| PauseOffload
| ResumeOffload
| OnProgress bool
| OnComplete bool
| OnError bool
| OnStatusChange bool
| SetStartHook "bool option"
| SetCancelHook "bool option"
| SetNodesHook "TargetNode list option"
| SetSelectNodeHook "(string \<Rightarrow> bool) option"
| ForceStatus OffloadStatus
| SimulateProgress size_t time_point time_point
| SimulateComplete bool time_point
| SimulateError string time_point
| SetAvailableNodes "TargetNode list"
| AddNode TargetNode
| RemoveNode string
| ClearNodes
| SetNodeHealth string NodeHealth
| Reset time_point time_point time_point

fun step :: "Op \<Rightarrow> MockOffloadManager \<Rightarrow> MockOffloadManager" where
  "step (SetConfig c) m = m\<lparr>config := c\<rparr>"
| "step (RefreshNodes now) m = snd (refresh_nodes now m)"
| "step (SelectTargetNode nid) m = snd (select_target_node nid m)"
| "step AutoSelectTargetNode m = snd (auto_select_target_node m)"
| "step ClearTargetSelection m = clear_target_selection m"
| "step (StartOffload ids now) m = snd (start_offload ids now m)"
| "step (CancelOffload now) m = snd (cancel_offload now m)"
| "step PauseOffload m = snd (pause_offload m)"
| "step ResumeOffload m = snd (resume_offload m)"
| "step (OnProgress cb) m = m\<lparr>progress_callback := cb\<rparr>"
| "step (OnComplete cb) m = m\<lparr>complete_callback := cb\<rparr>"
| "step (OnError cb) m = m\<lparr>error_callback := cb\<rparr>"
| "step (OnStatusChange cb) m = m\<lparr>status_change_callback := cb\<rparr>"
| "step (SetStartHook h) m = m\<lparr>start_hook := h\<rparr>"
| "step (SetCancelHook h) m = m\<lparr>cancel_hook := h\<rparr>"
| "step (SetNodesHook h) m = m\<lparr>nodes_hook := h\<rparr>"
| "step (SetSelectNodeHook h) m = m\<lparr>select_node_hook := h\<rparr>"
| "step (ForceStatus st) m = force_status st m"
| "step (SimulateProgress bytes now now') m = simulate_progress bytes now now' m"
| "step (SimulateComplete ok now) m = simulate_complete ok now m"
| "step (SimulateError err now) m = simulate_error err now m"
| "step (SetAvailableNodes ns) m = m\<lparr>available_nodes := ns\<rparr>"
| "step (AddNode n) m = m\<lparr>available_nodes := available_nodes m @ [n]\<rparr>"
| "step (RemoveNode nid) m = remove_node nid m"
| "step ClearNodes m = m\<lparr>available_nodes := []\<rparr>"
| "step (SetNodeHealth nid h) m = set_node_health nid h m"
| "step (Reset t1 t2 t3) m = reset t1 t2 t3 m"

fun run :: "MockOffloadManager \<Rightarrow> Op list \<Rightarrow> MockOffloadManager" where
  "run m [] = m"
| "run m (op # ops) = run (step op m) ops"

section \<open>Concrete managers\<close>

text \<open>
  States reached from a fresh manager through the public methods; the examples below
  evaluate the operations on them.
\<close>

definition example_manager :: MockOffloadManager where
  "example_manager = new_MockOffloadManager 1 2 3"

definition selected_manager :: MockOffloadManager where
  "selected_manager = run example_manager [SelectTargetNode ''node1'']"

definition transferring_manager :: MockOffloadManager where
  "transferring_manager = run selected_manager [StartOffload [] 10]"

definition paused_manager :: MockOffloadManager where
  "paused_manager = run transferring_manager [PauseOffload]"

definition start_hooked_manager :: MockOffloadManager where
  "start_hooked_manager = run example_manager [SetStartHook (Some True)]"

definition cancel_hooked_manager :: MockOffloadManager where
  "cancel_hooked_manager = run example_manager [SetCancelHook (Some True)]"

definition select_hooked_manager :: MockOffloadManager where
  "select_hooked_manager = run example_manager [SetSelectNodeHook (Some (\<lambda>nid. True))]"

text \<open>A second, healthy node registered under the id of the first, now unhealthy, one.\<close>

definition twin_node :: TargetNode where
  "twin_node = create_mock_node ''node1'' ''192.168.1.20'' (10 * 1024 * 1024 * 1024) 30 40 4"

definition duplicate_id_manager :: MockOffloadManager where
  "duplicate_id_manager =
     run example_manager [SetNodeHealth ''node1'' Unhealthy, AddNode twin_node]"

definition observed_manager :: MockOffloadManager where
  "observed_manager = run example_manager [OnStatusChange True, SelectTargetNode ''node1'']"


definition progressed_manager :: MockOffloadManager where
  "progressed_manager =
     run transferring_manager
       [SimulateProgress (10 * 1024 * 1024) 20 21, SimulateProgress (20 * 1024 * 1024) 22 23]"

text \<open>An operation in flight on \<open>node1\<close>, with a selection hook that refuses every id.\<close>

definition refusing_manager :: MockOffloadManager where
  "refusing_manager =
     run transferring_manager [SetSelectNodeHook (Some (\<lambda>nid. False))]"

text \<open>The target is changed while the operation runs, then the operation completes.\<close>

definition retargeted_manager :: MockOffloadManager where
  "retargeted_manager =
     run transferring_manager [SelectTargetNode ''node2'', SimulateComplete True 30]"

definition untargeted_manager :: MockOffloadManager where
  "untargeted_manager =
     run transferring_manager [ClearTargetSelection, SimulateComplete True 30]"

text \<open>The second default node of \<open>example_manager\<close>.\<close>

definition second_node :: TargetNode where
  "second_node = create_mock_node ''node2'' ''192.168.1.11'' (200 * 1024 * 1024 * 1024) 30 40 2"

section \<open>Reading the status-change notifications off the event sequence\<close>

fun status_changes :: "Event list \<Rightarrow> (OffloadStatus \<times> OffloadStatus) list" where
  "status_changes [] = []"
| "status_changes (StatusChangeEvent prev next # es) = (prev, next) # status_changes es"
| "status_changes (e # es) = status_changes es"

definition completed_observed_manager :: MockOffloadManager where
  "completed_observed_manager =
     run observed_manager [StartOffload [] 10, SimulateComplete True 20]"

section \<open>The progress invariants\<close>

text \<open>
  The two equations between the counters of a progress record, first as the \<open>size_t\<close>
  expressions evaluate (sums modulo \<open>2 ^ 64\<close>), then between the counts as natural
  numbers.
\<close>

definition progress_invariants :: "OffloadProgress \<Rightarrow> bool" where
  "progress_invariants p \<longleftrightarrow>
     segments_completed p + segments_failed p + segments_pending p = segments_total p \<and>
     transferred_bytes p + pending_bytes p = total_bytes p"

definition progress_invariants_exact :: "OffloadProgress \<Rightarrow> bool" where
  "progress_invariants_exact p \<longleftrightarrow>
     unat (segments_completed p) + unat (segments_failed p) + unat (segments_pending p)
       = unat (segments_total p) \<and>
     unat (transferred_bytes p) + unat (pending_bytes p) = unat (total_bytes p)"

text \<open>
  No operation writes \<open>segments_failed\<close>; what the operations maintain is the modular
  equations together with \<open>segments_failed = 0\<close>.
\<close>

definition accounting :: "OffloadProgress \<Rightarrow> bool" where
  "accounting p \<longleftrightarrow> progress_invariants p \<and> segments_failed p = 0"

text \<open>More bytes reported than the operation has: 200 MiB of the 100 MiB.\<close>

definition overrun_manager :: MockOffloadManager where
  "overrun_manager =
     run transferring_manager [SimulateProgress (200 * 1024 * 1024) 20 21]"

text \<open>All 100 segments reported, 1 MiB each.\<close>

definition exhausted_manager :: MockOffloadManager where
  "exhausted_manager =
     run transferring_manager (replicate 100 (SimulateProgress (1024 * 1024) 20 21))"

section \<open>Segmenting, in the words of the specification\<close>

text \<open>
  The manager creates no segments; these two definitions follow the specification and
  are what the counters of \<open>start_offload\<close> are compared with.
  \<open>spec_segments_total\<close> is \<open>ceil(total_bytes / segment_size)\<close>;
  \<open>spec_segment_lengths\<close> lists the segment lengths: \<open>segment_size\<close> each, the last
  segment holding the remainder when there is one.
\<close>

definition spec_segments_total :: "nat \<Rightarrow> nat \<Rightarrow> nat" where
  "spec_segments_total tot seg = (tot + seg - 1) div seg"

definition spec_segment_lengths :: "nat \<Rightarrow> nat \<Rightarrow> nat list" where
  "spec_segment_lengths tot seg =
     replicate (tot div seg) seg @ (if tot mod seg = 0 then [] else [tot mod seg])"

text \<open>A manager configured with 2 MiB segments, a target selected.\<close>

definition two_mib_manager :: MockOffloadManager where
  "two_mib_manager =
     run example_manager
       [SetConfig (default_OffloadConfig\<lparr>segment_size := 2 * 1024 * 1024\<rparr>),
        SelectTargetNode ''node1'']"

section \<open>Automatic selection, characterised\<close>

text \<open>
  \<open>best_candidate\<close>: the first node in list order that can accept an offload and whose
  available storage is not exceeded by any node that can accept an offload.
\<close>

definition best_candidate :: "TargetNode list \<Rightarrow> TargetNode option" where
  "best_candidate ns =
     find (\<lambda>n. can_accept_offload n \<and>
                (\<forall>k \<in> set ns. can_accept_offload k \<longrightarrow>
                   available_storage_bytes k \<le> available_storage_bytes n)) ns"

text \<open>
  The admission test of the specification for automatic selection: the admission
  predicate and the three bounds of the configuration.
\<close>

definition spec_admissible :: "OffloadConfig \<Rightarrow> TargetNode \<Rightarrow> bool" where
  "spec_admissible c n \<longleftrightarrow>
     can_accept_offload n \<and>
     min_available_storage_bytes c \<le> available_storage_bytes n \<and>
     cpu_usage_percent n \<le> max_target_cpu_usage c \<and>
     memory_usage_percent n \<le> max_target_memory_usage c"

text \<open>Byte-wise lexical order of two node ids, as \<open>std::string\<close> compares.\<close>

fun lexical_less :: "string \<Rightarrow> string \<Rightarrow> bool" where
  "lexical_less [] [] = False"
| "lexical_less [] (d # ds) = True"
| "lexical_less (c # cs) [] = False"
| "lexical_less (c # cs) (d # ds) =
     ((of_char c :: nat) < of_char d \<or> (c = d \<and> lexical_less cs ds))"

text \<open>
  A single node that can accept offloads but has 512 MiB available, 95% CPU and 97%
  memory in use.
\<close>

definition weak_node :: TargetNode where
  "weak_node = create_mock_node ''weak'' ''192.168.1.30'' (512 * 1024 * 1024) 95 97 5"

definition weak_manager :: MockOffloadManager where
  "weak_manager = run example_manager [SetAvailableNodes [weak_node]]"

text \<open>
  Two nodes of the same region and the same available storage; the one listed first has
  the greater id and five active offloads, the other none.
\<close>

definition tie_b :: TargetNode where
  "tie_b = (create_mock_node ''nodeB'' ''192.168.1.31'' (100 * 1024 * 1024 * 1024) 30 40 6)
             \<lparr>active_offload_count := 5\<rparr>"

definition tie_a :: TargetNode where
  "tie_a = create_mock_node ''nodeA'' ''192.168.1.32'' (100 * 1024 * 1024 * 1024) 30 40 7"

definition tie_manager :: MockOffloadManager where
  "tie_manager = run example_manager [SetAvailableNodes [tie_b, tie_a]]"

text \<open>
  \<open>placed ns r\<close>: \<open>r\<close> occurs in \<open>ns\<close> and can accept an offload, the accepting nodes
  before it have strictly less available storage and those after it have no more.
\<close>

definition placed :: "TargetNode list \<Rightarrow> TargetNode \<Rightarrow> bool" where
  "placed ns r \<longleftrightarrow>
     (\<exists>pre post. ns = pre @ r # post \<and> can_accept_offload r \<and>
        (\<forall>n \<in> set pre. can_accept_offload n \<longrightarrow>
           available_storage_bytes n < available_storage_bytes r) \<and>
        (\<forall>n \<in> set post. can_accept_offload n \<longrightarrow>
           available_storage_bytes n \<le> available_storage_bytes r))"

definition no_nodes_manager :: MockOffloadManager where
  "no_nodes_manager = run selected_manager [ClearNodes]"

text \<open>
  The calls an operation owes its subscribers.  \<open>status_calls prev next\<close>: one call with
  the pair (previous, next) for a write of \<open>next\<close> over \<open>prev\<close> that changes the status,
  none for a write that leaves it.  \<open>error_calls\<close>: the error call, when an error
  callback is stored.  \<open>complete_calls\<close>: the completion call, when a completion
  callback is stored, carrying the result that has been recorded.
\<close>

definition status_calls :: "OffloadStatus \<Rightarrow> OffloadStatus \<Rightarrow> Event list" where
  "status_calls prev next = (if prev = next then [] else [StatusChangeEvent prev next])"

definition error_calls :: "MockOffloadManager \<Rightarrow> string \<Rightarrow> Event list" where
  "error_calls m e = (if error_callback m then [ErrorEvent e] else [])"

definition complete_calls :: "MockOffloadManager \<Rightarrow> Event list" where
  "complete_calls m =
     (if complete_callback m
      then (case last_result m of Some r \<Rightarrow> [CompleteEvent r] | None \<Rightarrow> [])
      else [])"

text \<open>The operations whose source text assigns \<open>status_\<close>, directly or by \<open>set_status\<close>.\<close>

fun writes_status :: "Op \<Rightarrow> bool" where
  "writes_status (StartOffload ids now) = True"
| "writes_status (CancelOffload now) = True"
| "writes_status PauseOffload = True"
| "writes_status ResumeOffload = True"
| "writes_status (ForceStatus st) = True"
| "writes_status (SimulateComplete ok now) = True"
| "writes_status (SimulateError err now) = True"
| "writes_status (Reset t1 t2 t3) = True"
| "writes_status op = False"

section \<open>Facts about the notification helpers\<close>

lemmas op_defs = set_status_def notify_error_def notify_progress_def notify_complete_def
  pause_offload_def resume_offload_def select_target_node_def auto_select_target_node_def
  clear_target_selection_def start_offload_def cancel_offload_def is_active_def
  force_status_def simulate_progress_def simulate_complete_def simulate_error_def
  refresh_nodes_def remove_node_def set_node_health_def reset_def
  new_MockOffloadManager_def default_nodes_def create_mock_node_def can_accept_offload_def
  default_TargetNode_def default_OffloadProgress_def default_OffloadResult_def
  default_OffloadConfig_def duration_cast_def Let_def

lemmas example_defs = example_manager_def selected_manager_def transferring_manager_def
  paused_manager_def start_hooked_manager_def cancel_hooked_manager_def
  select_hooked_manager_def twin_node_def duplicate_id_manager_def

lemma set_status_fields [simp]:
  "status (set_status st m) = st"
  "progress (set_status st m) = progress m"
  "current_target (set_status st m) = current_target m"
  "last_result (set_status st m) = last_result m"
  "available_nodes (set_status st m) = available_nodes m"
  "config (set_status st m) = config m"
  "offload_data_ids (set_status st m) = offload_data_ids m"
  "status_change_callback (set_status st m) = status_change_callback m"
  "complete_callback (set_status st m) = complete_callback m"
  "error_callback (set_status st m) = error_callback m"
  "progress_callback (set_status st m) = progress_callback m"
  by (simp_all add: set_status_def Let_def)

lemma events_set_status:
  "events (set_status st m) =
     events m @ (if status_change_callback m \<and> status m \<noteq> st
                 then [StatusChangeEvent (status m) st] else [])"
  by (simp add: set_status_def Let_def)

lemma notify_error_fields [simp]:
  "status (notify_error e m) = status m"
  "progress (notify_error e m) = progress m"
  "current_target (notify_error e m) = current_target m"
  "last_result (notify_error e m) = last_result m"
  "available_nodes (notify_error e m) = available_nodes m"
  "config (notify_error e m) = config m"
  "offload_data_ids (notify_error e m) = offload_data_ids m"
  "status_change_callback (notify_error e m) = status_change_callback m"
  "complete_callback (notify_error e m) = complete_callback m"
  by (simp_all add: notify_error_def)

lemma notify_error_events_only: "(notify_error e m)\<lparr>events := events m\<rparr> = m"
  by (simp add: notify_error_def)

lemma events_notify_error:
  "events (notify_error e m) = events m @ (if error_callback m then [ErrorEvent e] else [])"
  by (simp add: notify_error_def)

lemma notify_complete_fields [simp]:
  "status (notify_complete ok now m) = status m"
  "progress (notify_complete ok now m) = progress m"
  "current_target (notify_complete ok now m) = current_target m"
  "available_nodes (notify_complete ok now m) = available_nodes m"
  "config (notify_complete ok now m) = config m"
  "status_change_callback (notify_complete ok now m) = status_change_callback m"
  by (simp_all add: notify_complete_def Let_def)

lemma last_result_notify_complete:
  "last_result (notify_complete ok now m) =
     Some \<lparr> success = ok,
            result_error_message = (if ok then None else error_message (progress m)),
            final_progress = progress m,
            target_node = (case current_target m of Some t \<Rightarrow> t | None \<Rightarrow> default_TargetNode),
            completed_at = now \<rparr>"
  by (cases "current_target m"; cases "error_message (progress m)")
     (simp_all add: notify_complete_def Let_def default_OffloadResult_def)

section \<open>Pause and resume\<close>

text \<open>
  C6.  In every manager state \<open>pause_offload\<close> returns true exactly when the status is
  \<open>Transferring\<close>, and \<open>resume_offload\<close> returns true exactly when the status is
  \<open>Paused\<close>.  A successful pause leaves the status \<open>Paused\<close>, a successful resume leaves
  it \<open>Transferring\<close>; a rejected call leaves the status as it was.
\<close>

theorem pause_resume_guards:
  "fst (pause_offload m) = (status m = Transferring) \<and>
   status (snd (pause_offload m)) = (if status m = Transferring then Paused else status m) \<and>
   fst (resume_offload m) = (status m = Paused) \<and>
   status (snd (resume_offload m)) = (if status m = Paused then Transferring else status m)"
  by (simp add: pause_offload_def resume_offload_def)

theorem pause_resume_guards_witness:
  "status transferring_manager = Transferring \<and>
   fst (pause_offload transferring_manager) \<and>
   status (snd (pause_offload transferring_manager)) = Paused \<and>
   \<not> fst (resume_offload transferring_manager) \<and>
   status (snd (resume_offload transferring_manager)) = Transferring \<and>
   status paused_manager = Paused \<and>
   \<not> fst (pause_offload paused_manager) \<and>
   status (snd (pause_offload paused_manager)) = Paused \<and>
   fst (resume_offload paused_manager) \<and>
   status (snd (resume_offload paused_manager)) = Transferring"
proof -
  have t: "status transferring_manager = Transferring"
    by (simp add: example_defs op_defs)
  have p: "status paused_manager = Paused"
    by (simp add: example_defs op_defs)
  show ?thesis
    using pause_resume_guards [of transferring_manager]
      pause_resume_guards [of paused_manager] t p
    by simp
qed

section \<open>Starting an offload\<close>

text \<open>
  C1, as the claim states it, fails when a start hook is installed: the hook's answer is
  the result, whatever the target and the status.  On a fresh manager with a hook that
  returns true, \<open>start_offload\<close> succeeds with no target selected, and the status goes
  from \<open>Idle\<close> straight to \<open>Transferring\<close>.
\<close>

theorem start_offload_hook_counterexample:
  "\<not> (fst (start_offload [] 10 start_hooked_manager) \<longleftrightarrow>
        current_target start_hooked_manager \<noteq> None \<and>
        (status start_hooked_manager = Idle \<or> status start_hooked_manager = Paused)) \<and>
   fst (start_offload [] 10 start_hooked_manager) \<and>
   current_target start_hooked_manager = None \<and>
   status (snd (start_offload [] 10 start_hooked_manager)) = Transferring"
  by (simp add: example_defs op_defs)

text \<open>
  C1, amended.  In every manager state with no start hook installed, \<open>start_offload\<close>
  (with any data ids) returns true exactly when a target node is selected and the status
  is \<open>Idle\<close> or \<open>Paused\<close>.  On success the status ends as \<open>Transferring\<close> and a
  subscribed status-change callback receives the pair (previous, \<open>Preparing\<close>) and then
  (\<open>Preparing\<close>, \<open>Transferring\<close>).  A rejected start leaves the status, and everything
  else but the error notification, as it was: without a target the status of an idle
  manager remains \<open>Idle\<close>, and a second start while \<open>Transferring\<close> leaves it
  \<open>Transferring\<close>.
\<close>

theorem start_offload_guard:
  "start_hook m = None \<Longrightarrow>
   fst (start_offload ids now m) =
     (current_target m \<noteq> None \<and> (status m = Idle \<or> status m = Paused)) \<and>
   (if fst (start_offload ids now m)
    then status (snd (start_offload ids now m)) = Transferring \<and>
         events (snd (start_offload ids now m)) =
           events m @ (if status_change_callback m
                       then [StatusChangeEvent (status m) Preparing,
                             StatusChangeEvent Preparing Transferring]
                       else [])
    else status (snd (start_offload ids now m)) = status m \<and>
         (snd (start_offload ids now m))\<lparr>events := events m\<rparr> = m)"
  by (auto simp: start_offload_def Let_def events_set_status notify_error_events_only)

theorem start_offload_guard_witness:
  "start_hook observed_manager = None \<and>
   fst (start_offload [] 10 observed_manager) \<and>
   status (snd (start_offload [] 10 observed_manager)) = Transferring \<and>
   events (snd (start_offload [] 10 observed_manager)) =
     [StatusChangeEvent Idle Preparing, StatusChangeEvent Preparing Transferring] \<and>
   start_hook example_manager = None \<and>
   current_target example_manager = None \<and>
   \<not> fst (start_offload [] 10 example_manager) \<and>
   status (snd (start_offload [] 10 example_manager)) = Idle \<and>
   start_hook transferring_manager = None \<and>
   \<not> fst (start_offload [] 11 transferring_manager) \<and>
   status (snd (start_offload [] 11 transferring_manager)) = Transferring"
proof -
  have h1: "start_hook observed_manager = None"
    and h2: "start_hook example_manager = None"
    and h3: "start_hook transferring_manager = None"
    by (simp_all add: example_defs observed_manager_def op_defs)
  have f1: "current_target observed_manager \<noteq> None" "status observed_manager = Idle"
    "events observed_manager = []" "status_change_callback observed_manager"
    by (simp_all add: example_defs observed_manager_def op_defs)
  have f2: "current_target example_manager = None" "status example_manager = Idle"
    by (simp_all add: example_defs op_defs)
  have f3: "status transferring_manager = Transferring"
    by (simp add: example_defs op_defs)
  show ?thesis
    using start_offload_guard [OF h1, of "[]" 10] start_offload_guard [OF h2, of "[]" 10]
      start_offload_guard [OF h3, of "[]" 11] h1 h2 h3 f1 f2 f3
    by simp
qed

section \<open>Cancelling an offload\<close>

text \<open>
  C5, as the claim states it, fails when a cancel hook is installed: the hook's answer is
  the result and nothing else happens.  On a fresh, idle manager with a hook that returns
  true, \<open>cancel_offload\<close> succeeds although no operation is active; the status stays
  \<open>Idle\<close> and no result is recorded.
\<close>

theorem cancel_offload_hook_counterexample:
  "\<not> (fst (cancel_offload 10 cancel_hooked_manager) \<longleftrightarrow> is_active cancel_hooked_manager) \<and>
   fst (cancel_offload 10 cancel_hooked_manager) \<and>
   status cancel_hooked_manager = Idle \<and>
   status (snd (cancel_offload 10 cancel_hooked_manager)) = Idle \<and>
   last_result (snd (cancel_offload 10 cancel_hooked_manager)) = None"
  by (simp add: example_defs op_defs)

text \<open>
  C5, amended.  In every manager state with no cancel hook installed, \<open>cancel_offload\<close>
  returns true exactly when an operation is active (status \<open>Preparing\<close>, \<open>Transferring\<close>,
  \<open>Completing\<close> or \<open>Paused\<close>).  On success the status becomes \<open>Cancelled\<close> and the last
  result has \<open>success = false\<close> and, as its final progress, the progress record as it
  was, so the byte counts transferred so far are retained.  When no operation is active
  the call returns false and leaves the status, and everything else but the error
  notification, as it was.
\<close>

theorem cancel_offload_guard:
  "cancel_hook m = None \<Longrightarrow>
   fst (cancel_offload now m) = is_active m \<and>
   (if is_active m
    then status (snd (cancel_offload now m)) = Cancelled \<and>
         map_option success (last_result (snd (cancel_offload now m))) = Some False \<and>
         map_option final_progress (last_result (snd (cancel_offload now m))) =
           Some (progress m) \<and>
         progress (snd (cancel_offload now m)) = progress m
    else status (snd (cancel_offload now m)) = status m \<and>
         (snd (cancel_offload now m))\<lparr>events := events m\<rparr> = m)"
  by (cases "status m")
     (simp_all add: cancel_offload_def is_active_def last_result_notify_complete
        notify_error_events_only)

theorem cancel_offload_guard_witness:
  "cancel_hook progressed_manager = None \<and>
   is_active progressed_manager \<and>
   fst (cancel_offload 30 progressed_manager) \<and>
   status (snd (cancel_offload 30 progressed_manager)) = Cancelled \<and>
   map_option success (last_result (snd (cancel_offload 30 progressed_manager))) = Some False \<and>
   map_option (transferred_bytes \<circ> final_progress)
     (last_result (snd (cancel_offload 30 progressed_manager))) = Some 31457280 \<and>
   cancel_hook example_manager = None \<and>
   \<not> fst (cancel_offload 30 example_manager) \<and>
   status (snd (cancel_offload 30 example_manager)) = Idle"
proof -
  have h1: "cancel_hook progressed_manager = None"
    and h2: "cancel_hook example_manager = None"
    by (simp_all add: example_defs progressed_manager_def op_defs)
  have f1: "is_active progressed_manager"
    "transferred_bytes (progress progressed_manager) = 31457280"
    by (simp_all add: example_defs progressed_manager_def op_defs)
  have f2: "\<not> is_active example_manager" "status example_manager = Idle"
    by (simp_all add: example_defs op_defs)
  show ?thesis
    using cancel_offload_guard [OF h1, of 30] cancel_offload_guard [OF h2, of 30] h1 h2 f1 f2
    by (auto simp: option.map_comp [symmetric])
qed

section \<open>Selecting a target node\<close>

lemma select_loop_find:
  "select_loop ns nid m =
     (case find (\<lambda>n. node_id n = nid) ns of
        None \<Rightarrow> (False, notify_error (''Node not found: '' @ nid) m)
      | Some n \<Rightarrow>
          if can_accept_offload n then (True, m\<lparr>current_target := Some n\<rparr>)
          else (False, notify_error (''Node '' @ nid @ '' cannot accept offloads'') m))"
  by (induction ns) simp_all

lemma find_distinct_ids:
  "distinct (map node_id ns) \<Longrightarrow> n \<in> set ns \<Longrightarrow> node_id n = nid \<Longrightarrow>
   find (\<lambda>n. node_id n = nid) ns = Some n"
  by (induction ns) (auto simp: image_iff)

text \<open>
  C4, as the claim states it, fails in two ways.  When two nodes carry the same id, the
  first one in the list decides: with an unhealthy \<open>node1\<close> listed before a healthy,
  admissible node of the same id, \<open>select_target_node\<close> fails although a node with that
  id exists and is admissible.  With a selection hook installed the hook's answer is the
  result: an id that no node has is reported as selected.
\<close>

theorem select_target_node_counterexample:
  "\<not> fst (select_target_node ''node1'' duplicate_id_manager) \<and>
   twin_node \<in> set (available_nodes duplicate_id_manager) \<and>
   node_id twin_node = ''node1'' \<and> can_accept_offload twin_node \<and>
   fst (select_target_node ''node9'' select_hooked_manager) \<and>
   ''node9'' \<notin> set (map node_id (available_nodes select_hooked_manager))"
  by (simp add: example_defs op_defs)

text \<open>
  C4, amended.  For every node list and every node id, with no selection hook installed,
  \<open>select_target_node\<close> succeeds if and only if the first node in the list with that id
  exists and satisfies \<open>accepting_offloads\<close>, \<open>health = Healthy\<close> and
  \<open>active_offload_count < max_concurrent_offloads\<close>; when the node ids are pairwise
  distinct this is: a node with that id exists and satisfies the predicate.  On success
  that node becomes the current target and nothing else changes.  Whenever the call
  fails it returns false and leaves the prior selection, and everything else but the
  error notification, unchanged.
\<close>

theorem select_target_node_guard:
  "select_node_hook m = None \<Longrightarrow>
   fst (select_target_node nid m) =
     (case find (\<lambda>n. node_id n = nid) (available_nodes m) of
        None \<Rightarrow> False | Some n \<Rightarrow> can_accept_offload n) \<and>
   (if fst (select_target_node nid m)
    then snd (select_target_node nid m) =
           m\<lparr>current_target := find (\<lambda>n. node_id n = nid) (available_nodes m)\<rparr>
    else current_target (snd (select_target_node nid m)) = current_target m \<and>
         (snd (select_target_node nid m))\<lparr>events := events m\<rparr> = m) \<and>
   (distinct (map node_id (available_nodes m)) \<longrightarrow>
      fst (select_target_node nid m) =
        (\<exists>n \<in> set (available_nodes m). node_id n = nid \<and> can_accept_offload n))"
proof -
  assume hook: "select_node_hook m = None"
  let ?found = "find (\<lambda>n. node_id n = nid) (available_nodes m)"
  have sel: "select_target_node nid m = select_loop (available_nodes m) nid m"
    by (simp add: select_target_node_def hook)
  show ?thesis
  proof (cases ?found)
    case None
    then have "\<forall>n \<in> set (available_nodes m). node_id n \<noteq> nid"
      by (simp add: find_None_iff)
    with None show ?thesis
      by (auto simp: sel select_loop_find notify_error_events_only)
  next
    case (Some n)
    then have n: "n \<in> set (available_nodes m)" "node_id n = nid"
      by (auto simp: find_Some_iff)
    have uniq: "n' = n"
      if "distinct (map node_id (available_nodes m))" "n' \<in> set (available_nodes m)"
        "node_id n' = nid" for n'
      using find_distinct_ids [OF that] Some by simp
    from Some n show ?thesis
      by (auto simp: sel select_loop_find notify_error_events_only dest: uniq)
  qed
qed

theorem select_target_node_guard_witness:
  "select_node_hook selected_manager = None \<and>
   distinct (map node_id (available_nodes selected_manager)) \<and>
   fst (select_target_node ''node2'' selected_manager) \<and>
   map_option node_id (current_target (snd (select_target_node ''node2'' selected_manager))) =
     Some ''node2'' \<and>
   \<not> fst (select_target_node ''node9'' selected_manager) \<and>
   map_option node_id (current_target (snd (select_target_node ''node9'' selected_manager))) =
     Some ''node1'' \<and>
   select_node_hook (set_node_health ''node2'' Unhealthy selected_manager) = None \<and>
   \<not> fst (select_target_node ''node2'' (set_node_health ''node2'' Unhealthy selected_manager)) \<and>
   map_option node_id (current_target (snd (select_target_node ''node2''
       (set_node_health ''node2'' Unhealthy selected_manager)))) = Some ''node1''"
proof -
  let ?u = "set_node_health ''node2'' Unhealthy selected_manager"
  have h1: "select_node_hook selected_manager = None"
    and h2: "select_node_hook ?u = None"
    by (simp_all add: example_defs op_defs)
  have f1: "distinct (map node_id (available_nodes selected_manager))"
    "map_option node_id (current_target selected_manager) = Some ''node1''"
    "map_option node_id (find (\<lambda>n. node_id n = ''node2'') (available_nodes selected_manager))
       = Some ''node2''"
    "map_option can_accept_offload
       (find (\<lambda>n. node_id n = ''node2'') (available_nodes selected_manager)) = Some True"
    "find (\<lambda>n. node_id n = ''node9'') (available_nodes selected_manager) = None"
    by (simp_all add: example_defs op_defs)
  have f2: "map_option node_id (current_target ?u) = Some ''node1''"
    "map_option can_accept_offload
       (find (\<lambda>n. node_id n = ''node2'') (available_nodes ?u)) = Some False"
    by (simp_all add: example_defs op_defs)
  show ?thesis
    using select_target_node_guard [OF h1, of "''node2''"]
      select_target_node_guard [OF h1, of "''node9''"]
      select_target_node_guard [OF h2, of "''node2''"] h1 h2 f1 f2
    by (auto split: option.splits if_splits)
qed

section \<open>The target node while an operation runs\<close>

text \<open>
  C9, as the claim states it, fails when a selection hook is installed: with an operation
  in flight on \<open>node1\<close> and a hook that answers false, selecting the existing, admissible
  \<open>node2\<close> fails and the target stays \<open>node1\<close>.
\<close>

theorem select_while_active_counterexample:
  "is_active refusing_manager \<and>
   second_node \<in> set (available_nodes refusing_manager) \<and>
   node_id second_node = ''node2'' \<and> can_accept_offload second_node \<and>
   \<not> fst (select_target_node ''node2'' refusing_manager) \<and>
   map_option node_id (current_target (snd (select_target_node ''node2'' refusing_manager))) =
     Some ''node1''"
  by (simp add: example_defs refusing_manager_def second_node_def op_defs)

text \<open>
  C9, amended.  Selection does not look at the status.  In every state, so also while an
  operation is active (\<open>Preparing\<close>, \<open>Transferring\<close>, \<open>Paused\<close> or \<open>Completing\<close>), with no
  selection hook installed, \<open>select_target_node\<close> with the id of an admissible node (the
  first node in the list with that id) succeeds and replaces the current target, and
  \<open>clear_target_selection\<close> clears it.  The \<open>target_node\<close> of the last result recorded
  by \<open>simulate_complete\<close>, \<open>simulate_error\<close> or a successful \<open>cancel_offload\<close> is the
  target selected at that moment, not necessarily the one selected at the start; when no
  target is selected at that moment it is a default-constructed node.
\<close>

theorem target_while_active:
  "(select_node_hook m = None \<and>
    find (\<lambda>n. node_id n = nid) (available_nodes m) = Some n \<and> can_accept_offload n \<longrightarrow>
      select_target_node nid m = (True, m\<lparr>current_target := Some n\<rparr>)) \<and>
   clear_target_selection m = m\<lparr>current_target := None\<rparr> \<and>
   map_option target_node (last_result (simulate_complete ok now m)) =
     Some (case current_target m of Some t \<Rightarrow> t | None \<Rightarrow> default_TargetNode) \<and>
   map_option target_node (last_result (simulate_error err now m)) =
     Some (case current_target m of Some t \<Rightarrow> t | None \<Rightarrow> default_TargetNode) \<and>
   (cancel_hook m = None \<and> is_active m \<longrightarrow>
      map_option target_node (last_result (snd (cancel_offload now m))) =
        Some (case current_target m of Some t \<Rightarrow> t | None \<Rightarrow> default_TargetNode))"
proof -
  have "select_target_node nid m = (True, m\<lparr>current_target := Some n\<rparr>)"
    if "select_node_hook m = None"
      "find (\<lambda>n. node_id n = nid) (available_nodes m) = Some n" "can_accept_offload n"
    using that by (simp add: select_target_node_def select_loop_find)
  moreover have "clear_target_selection m = m\<lparr>current_target := None\<rparr>"
    by (simp add: clear_target_selection_def)
  moreover have "map_option target_node (last_result (simulate_complete ok now m)) =
     Some (case current_target m of Some t \<Rightarrow> t | None \<Rightarrow> default_TargetNode)"
    by (simp add: simulate_complete_def Let_def last_result_notify_complete)
  moreover have "map_option target_node (last_result (simulate_error err now m)) =
     Some (case current_target m of Some t \<Rightarrow> t | None \<Rightarrow> default_TargetNode)"
    by (simp add: simulate_error_def Let_def last_result_notify_complete)
  moreover have "map_option target_node (last_result (snd (cancel_offload now m))) =
        Some (case current_target m of Some t \<Rightarrow> t | None \<Rightarrow> default_TargetNode)"
    if "cancel_hook m = None" "is_active m"
    using that
    by (auto simp: cancel_offload_def is_active_def last_result_notify_complete)
  ultimately show ?thesis by blast
qed

theorem target_while_active_witness:
  "is_active transferring_manager \<and>
   map_option node_id (current_target transferring_manager) = Some ''node1'' \<and>
   select_target_node ''node2'' transferring_manager =
     (True, transferring_manager\<lparr>current_target := Some second_node\<rparr>) \<and>
   current_target (clear_target_selection transferring_manager) = None \<and>
   status retargeted_manager = Completed \<and>
   map_option target_node (last_result retargeted_manager) = Some second_node \<and>
   map_option target_node (last_result untargeted_manager) = Some default_TargetNode \<and>
   map_option target_node (last_result (snd (cancel_offload 30 transferring_manager))) =
     current_target transferring_manager"
proof -
  have h: "select_node_hook transferring_manager = None"
    "find (\<lambda>n. node_id n = ''node2'') (available_nodes transferring_manager) = Some second_node"
    "can_accept_offload second_node"
    "cancel_hook transferring_manager = None" "is_active transferring_manager"
    by (simp_all add: example_defs second_node_def op_defs)
  have sel: "select_target_node ''node2'' transferring_manager =
     (True, transferring_manager\<lparr>current_target := Some second_node\<rparr>)"
    using target_while_active [of transferring_manager "''node2''" second_node] h by blast
  have f: "map_option node_id (current_target transferring_manager) = Some ''node1''"
    by (simp add: example_defs op_defs)
  have r: "retargeted_manager =
      simulate_complete True 30 (transferring_manager\<lparr>current_target := Some second_node\<rparr>)"
    by (simp add: retargeted_manager_def sel)
  have u: "untargeted_manager =
      simulate_complete True 30 (clear_target_selection transferring_manager)"
    by (simp add: untargeted_manager_def)
  have st: "status retargeted_manager = Completed"
    by (simp add: r simulate_complete_def Let_def)
  show ?thesis
    using target_while_active
        [where m = "transferring_manager\<lparr>current_target := Some second_node\<rparr>"
           and ok = True and now = 30]
      target_while_active
        [where m = "clear_target_selection transferring_manager" and ok = True and now = 30]
      target_while_active [where m = transferring_manager and now = 30]
      h sel f st
    by (cases "current_target transferring_manager")
       (simp_all add: r u clear_target_selection_def)
qed

section \<open>Progress accounting\<close>

lemma notify_progress_counters [simp]:
  "total_bytes (progress (notify_progress now m)) = total_bytes (progress m)"
  "transferred_bytes (progress (notify_progress now m)) = transferred_bytes (progress m)"
  "pending_bytes (progress (notify_progress now m)) = pending_bytes (progress m)"
  "segments_total (progress (notify_progress now m)) = segments_total (progress m)"
  "segments_completed (progress (notify_progress now m)) = segments_completed (progress m)"
  "segments_failed (progress (notify_progress now m)) = segments_failed (progress m)"
  "segments_pending (progress (notify_progress now m)) = segments_pending (progress m)"
  by (simp_all add: notify_progress_def Let_def)

lemma simulate_progress_counters:
  "total_bytes (progress (simulate_progress b now now' m)) = total_bytes (progress m)"
  "transferred_bytes (progress (simulate_progress b now now' m)) =
     transferred_bytes (progress m) + b"
  "pending_bytes (progress (simulate_progress b now now' m)) =
     total_bytes (progress m) - (transferred_bytes (progress m) + b)"
  "segments_total (progress (simulate_progress b now now' m)) = segments_total (progress m)"
  "segments_completed (progress (simulate_progress b now now' m)) =
     segments_completed (progress m) + 1"
  "segments_failed (progress (simulate_progress b now now' m)) = segments_failed (progress m)"
  "segments_pending (progress (simulate_progress b now now' m)) =
     segments_total (progress m) - (segments_completed (progress m) + 1)"
  by (simp_all add: simulate_progress_def Let_def)

lemma select_loop_progress [simp]: "progress (snd (select_loop ns nid m)) = progress m"
  by (induction ns) simp_all

lemma accounting_step:
  assumes "accounting (progress m)"
  shows "accounting (progress (step op m))"
proof (cases op)
  case (StartOffload ids now)
  with assms show ?thesis
    by (auto simp: accounting_def progress_invariants_def start_offload_def Let_def
        default_OffloadProgress_def split: option.splits)
next
  case (SimulateProgress b now now')
  with assms show ?thesis
    by (auto simp: accounting_def progress_invariants_def simulate_progress_counters)
next
  case (SimulateComplete ok now)
  with assms show ?thesis
    by (auto simp: accounting_def progress_invariants_def simulate_complete_def Let_def)
next
  case (SimulateError err now)
  with assms show ?thesis
    by (auto simp: accounting_def progress_invariants_def simulate_error_def Let_def)
next
  case (Reset t1 t2 t3)
  then show ?thesis
    by (simp add: accounting_def progress_invariants_def reset_def default_OffloadProgress_def)
qed (insert assms, auto simp: select_target_node_def auto_select_target_node_def
    cancel_offload_def pause_offload_def resume_offload_def force_status_def
    refresh_nodes_def clear_target_selection_def remove_node_def set_node_health_def
    split: option.splits)

lemma accounting_run: "accounting (progress m) \<Longrightarrow> accounting (progress (run m ops))"
  by (induction ops arbitrary: m) (simp_all add: accounting_step)

lemma accounting_new: "accounting (progress (new_MockOffloadManager t1 t2 t3))"
  by (simp add: accounting_def progress_invariants_def new_MockOffloadManager_def
      default_OffloadProgress_def)

lemma accounting_exact:
  assumes "accounting p"
    and "unat (transferred_bytes p) \<le> unat (total_bytes p)"
    and "unat (segments_completed p) \<le> unat (segments_total p)"
  shows "progress_invariants_exact p"
proof -
  from assms(1) have pb: "pending_bytes p = total_bytes p - transferred_bytes p"
    and sp: "segments_pending p = segments_total p - segments_completed p"
    and sf: "segments_failed p = 0"
    by (auto simp: accounting_def progress_invariants_def algebra_simps)
  from assms(2) have "unat (pending_bytes p) = unat (total_bytes p) - unat (transferred_bytes p)"
    unfolding pb by (simp add: unat_sub word_le_nat_alt)
  moreover from assms(3)
  have "unat (segments_pending p) = unat (segments_total p) - unat (segments_completed p)"
    unfolding sp by (simp add: unat_sub word_le_nat_alt)
  ultimately show ?thesis
    using assms(2,3) by (simp add: progress_invariants_exact_def sf)
qed

text \<open>
  C8, as the claim states it, fails for the counts themselves: \<open>simulate_progress\<close> does
  not bound what it adds.  After an accepted start (100 MiB in total) and one report of
  200 MiB, the observable record has \<open>transferred_bytes\<close> = 209715200 and
  \<open>pending_bytes\<close> = 18446744073604694016, whose sum is not \<open>total_bytes\<close> = 104857600.
\<close>

theorem progress_invariants_counterexample:
  "\<not> progress_invariants_exact (progress overrun_manager) \<and>
   unat (transferred_bytes (progress overrun_manager)) = 209715200 \<and>
   unat (pending_bytes (progress overrun_manager)) = 18446744073604694016 \<and>
   unat (total_bytes (progress overrun_manager)) = 104857600"
  by (simp add: progress_invariants_exact_def overrun_manager_def example_defs op_defs)

text \<open>
  C8, amended.  Construction and every public operation (among them \<open>start_offload\<close>,
  \<open>simulate_progress\<close>, \<open>simulate_complete\<close>, \<open>simulate_error\<close>, pause, resume, cancel and
  \<open>reset\<close>) preserve the two progress invariants with the sums taken modulo \<open>2 ^ 64\<close>,
  as the \<open>size_t\<close> expressions evaluate, together with \<open>segments_failed = 0\<close>; so they
  hold of the progress record after every sequence of calls on a fresh manager.  As
  equations between the counts themselves they hold whenever
  \<open>transferred_bytes \<le> total_bytes\<close> and \<open>segments_completed \<le> segments_total\<close>.
\<close>

theorem progress_invariants_preserved:
  "accounting (progress (new_MockOffloadManager t1 t2 t3)) \<and>
   (accounting (progress m) \<longrightarrow> accounting (progress (step op m))) \<and>
   accounting (progress (run (new_MockOffloadManager t1 t2 t3) ops)) \<and>
   (accounting p \<and> unat (transferred_bytes p) \<le> unat (total_bytes p) \<and>
    unat (segments_completed p) \<le> unat (segments_total p)
      \<longrightarrow> progress_invariants_exact p)"
  using accounting_new [of t1 t2 t3] accounting_step [of m op]
    accounting_run [OF accounting_new, of t1 t2 t3 ops] accounting_exact [of p]
  by blast

theorem progress_invariants_preserved_witness:
  "progress_invariants (progress progressed_manager) \<and>
   unat (transferred_bytes (progress progressed_manager)) = 31457280 \<and>
   unat (total_bytes (progress progressed_manager)) = 104857600 \<and>
   unat (segments_completed (progress progressed_manager)) = 2 \<and>
   unat (segments_total (progress progressed_manager)) = 100 \<and>
   progress_invariants_exact (progress progressed_manager) \<and>
   progress_invariants (progress (step (SimulateProgress (200 * 1024 * 1024) 30 31)
     progressed_manager))"
proof -
  let ?ops = "[SelectTargetNode ''node1'', StartOffload [] 10,
     SimulateProgress (10 * 1024 * 1024) 20 21, SimulateProgress (20 * 1024 * 1024) 22 23]"
  have r: "progressed_manager = run (new_MockOffloadManager 1 2 3) ?ops"
    by (simp add: progressed_manager_def example_defs)
  have v: "unat (transferred_bytes (progress progressed_manager)) = 31457280"
    "unat (total_bytes (progress progressed_manager)) = 104857600"
    "unat (segments_completed (progress progressed_manager)) = 2"
    "unat (segments_total (progress progressed_manager)) = 100"
    by (simp_all add: progressed_manager_def example_defs op_defs)
  have a: "accounting (progress progressed_manager)"
    using progress_invariants_preserved [where ?t1.0 = 1 and ?t2.0 = 2 and ?t3.0 = 3
        and ops = ?ops]
    unfolding r by blast
  have e: "progress_invariants_exact (progress progressed_manager)"
    using progress_invariants_preserved [where p = "progress progressed_manager"] a v
    by simp
  have s: "accounting (progress (step (SimulateProgress (200 * 1024 * 1024) 30 31)
     progressed_manager))"
    using progress_invariants_preserved [where m = progressed_manager
        and op = "SimulateProgress (200 * 1024 * 1024) 30 31"] a
    by blast
  from a e s v show ?thesis
    unfolding accounting_def by blast
qed

section \<open>Wrap-around in \<open>simulate_progress\<close>\<close>

lemma run_replicate_progress:
  "total_bytes (progress (run m (replicate n (SimulateProgress b now now')))) =
     total_bytes (progress m) \<and>
   transferred_bytes (progress (run m (replicate n (SimulateProgress b now now')))) =
     transferred_bytes (progress m) + of_nat n * b \<and>
   segments_total (progress (run m (replicate n (SimulateProgress b now now')))) =
     segments_total (progress m) \<and>
   segments_completed (progress (run m (replicate n (SimulateProgress b now now')))) =
     segments_completed (progress m) + of_nat n"
  by (induction n arbitrary: m) (simp_all add: simulate_progress_counters algebra_simps)

text \<open>
  C10.  \<open>simulate_progress\<close> updates the counters in \<open>size_t\<close> arithmetic, modulo
  \<open>2 ^ 64\<close>, and never clamps: \<open>transferred_bytes\<close> grows by \<open>bytes\<close>, \<open>pending_bytes\<close>
  becomes \<open>total_bytes - transferred_bytes\<close>, \<open>segments_completed\<close> grows by one and
  \<open>segments_pending\<close> becomes \<open>segments_total - segments_completed\<close>.  When \<open>bytes\<close>
  exceeds \<open>total_bytes - transferred_bytes\<close>, \<open>pending_bytes\<close> wraps past zero to
  \<open>2 ^ 64\<close> minus the excess and \<open>progress_percent\<close> exceeds 100; when all segments
  are already completed, \<open>segments_pending\<close> wraps past zero likewise.
\<close>

theorem simulate_progress_wraps:
  "transferred_bytes (progress (simulate_progress bytes now now' m)) =
     transferred_bytes (progress m) + bytes \<and>
   pending_bytes (progress (simulate_progress bytes now now' m)) =
     total_bytes (progress m) - transferred_bytes (progress (simulate_progress bytes now now' m)) \<and>
   segments_completed (progress (simulate_progress bytes now now' m)) =
     segments_completed (progress m) + 1 \<and>
   segments_pending (progress (simulate_progress bytes now now' m)) =
     segments_total (progress m)
       - segments_completed (progress (simulate_progress bytes now now' m)) \<and>
   (unat (total_bytes (progress m)) < unat (transferred_bytes (progress m)) + unat bytes \<and>
    unat (transferred_bytes (progress m)) + unat bytes < 2 ^ 64 \<longrightarrow>
      unat (pending_bytes (progress (simulate_progress bytes now now' m))) =
        2 ^ 64 - (unat (transferred_bytes (progress m)) + unat bytes
                    - unat (total_bytes (progress m))) \<and>
      (total_bytes (progress m) \<noteq> 0 \<longrightarrow>
         100 < progress_percent (progress (simulate_progress bytes now now' m)))) \<and>
   (unat (segments_total (progress m)) \<le> unat (segments_completed (progress m)) \<and>
    unat (segments_completed (progress m)) + 1 < 2 ^ 64 \<longrightarrow>
      unat (segments_pending (progress (simulate_progress bytes now now' m))) =
        2 ^ 64 - (unat (segments_completed (progress m)) + 1
                    - unat (segments_total (progress m))))"
proof -
  let ?p = "progress m" and ?q = "progress (simulate_progress bytes now now' m)"
  have sub: "unat (a - b) = 2 ^ 64 - (unat b - unat a)" if "unat a < unat b"
    for a b :: size_t
  proof -
    have "unat b < 2 ^ 64" using unsigned_less [of b] by simp
    moreover have "unat (a - b) = unat a + 2 ^ 64 - unat b"
      using that by (simp add: unat_sub_if')
    ultimately show ?thesis using that by simp
  qed
  have bytes: "unat (pending_bytes ?q) =
        2 ^ 64 - (unat (transferred_bytes ?p) + unat bytes - unat (total_bytes ?p)) \<and>
      (total_bytes ?p \<noteq> 0 \<longrightarrow> 100 < progress_percent ?q)"
    if over: "unat (total_bytes ?p) < unat (transferred_bytes ?p) + unat bytes"
      and fit: "unat (transferred_bytes ?p) + unat bytes < 2 ^ 64"
  proof -
    have t: "unat (transferred_bytes ?p + bytes) = unat (transferred_bytes ?p) + unat bytes"
      using fit by (simp add: unat_add_lem [THEN iffD1])
    have "unat (total_bytes ?p - (transferred_bytes ?p + bytes)) =
        2 ^ 64 - (unat (transferred_bytes ?p + bytes) - unat (total_bytes ?p))"
      by (rule sub) (simp add: t over)
    moreover have "100 < progress_percent ?q" if nz: "total_bytes ?p \<noteq> 0"
    proof -
      define T where "T = unat (total_bytes ?p)"
      define X where "X = unat (transferred_bytes ?p + bytes)"
      have pq: "progress_percent ?q = 100 * real X / real T"
        using nz by (simp add: progress_percent_def simulate_progress_counters T_def X_def)
      have "0 < T" using nz by (simp add: T_def unat_gt_0)
      moreover have "T < X" using over by (simp only: T_def X_def t)
      ultimately have "100 * real T < 100 * real X" and "0 < real T"
        by simp_all
      then have "100 < 100 * real X / real T"
        by (simp add: pos_less_divide_eq)
      then show ?thesis by (simp only: pq)
    qed
    ultimately show ?thesis
      by (simp add: simulate_progress_counters t)
  qed
  have segs: "unat (segments_pending ?q) =
        2 ^ 64 - (unat (segments_completed ?p) + 1 - unat (segments_total ?p))"
    if full: "unat (segments_total ?p) \<le> unat (segments_completed ?p)"
      and fit: "unat (segments_completed ?p) + 1 < 2 ^ 64"
  proof -
    have c: "unat (segments_completed ?p + 1) = unat (segments_completed ?p) + 1"
      using fit by (simp add: unat_add_lem [THEN iffD1])
    have "unat (segments_total ?p - (segments_completed ?p + 1)) =
        2 ^ 64 - (unat (segments_completed ?p + 1) - unat (segments_total ?p))"
      by (rule sub) (use full in \<open>simp add: c\<close>)
    then show ?thesis
      by (simp add: simulate_progress_counters c)
  qed
  from bytes segs show ?thesis
    by (simp add: simulate_progress_counters)
qed

theorem simulate_progress_wraps_witness:
  "unat (total_bytes (progress exhausted_manager)) = 104857600 \<and>
   unat (transferred_bytes (progress exhausted_manager)) = 104857600 \<and>
   unat (segments_total (progress exhausted_manager)) = 100 \<and>
   unat (segments_completed (progress exhausted_manager)) = 100 \<and>
   unat (pending_bytes (progress (simulate_progress 1048576 30 31 exhausted_manager))) =
     18446744073708503040 \<and>
   unat (segments_pending (progress (simulate_progress 1048576 30 31 exhausted_manager))) =
     18446744073709551615 \<and>
   100 < progress_percent (progress (simulate_progress 1048576 30 31 exhausted_manager))"
proof -
  have t: "total_bytes (progress transferring_manager) = 104857600"
    "transferred_bytes (progress transferring_manager) = 0"
    "segments_total (progress transferring_manager) = 100"
    "segments_completed (progress transferring_manager) = 0"
    by (simp_all add: example_defs op_defs)
  have e: "total_bytes (progress exhausted_manager) = 104857600"
    "transferred_bytes (progress exhausted_manager) = 104857600"
    "segments_total (progress exhausted_manager) = 100"
    "segments_completed (progress exhausted_manager) = 100"
    unfolding exhausted_manager_def
    using run_replicate_progress [of transferring_manager 100 "1024 * 1024" 20 21]
    by (simp_all add: t)
  show ?thesis
    using simulate_progress_wraps [of 1048576 30 31 exhausted_manager]
    by (simp add: e unsigned_minus_1_eq_mask mask_eq_exp_minus_1)
qed

section \<open>Segment counts at the start of an offload\<close>

lemma spec_segments_consistent:
  assumes "0 < seg"
  shows "sum_list (spec_segment_lengths tot seg) = tot"
    and "length (spec_segment_lengths tot seg) = spec_segments_total tot seg"
proof -
  have "tot div seg * seg + tot mod seg = tot"
    by simp
  then show "sum_list (spec_segment_lengths tot seg) = tot"
    by (auto simp: spec_segment_lengths_def sum_list_replicate)
  show "length (spec_segment_lengths tot seg) = spec_segments_total tot seg"
  proof (cases "tot mod seg = 0")
    case True
    define q where "q = tot div seg"
    have q: "tot = q * seg"
      using True div_mult_mod_eq [of tot seg] by (simp add: q_def)
    have "(q * seg + seg - 1) div seg = q"
      using assms by (intro div_nat_eqI) (simp_all add: algebra_simps)
    with assms show ?thesis
      by (simp add: spec_segment_lengths_def spec_segments_total_def q)
  next
    case False
    define q r where "q = tot div seg" and "r = tot mod seg"
    have t: "tot = q * seg + r" and r: "0 < r" "r < seg"
      using False assms by (simp_all add: q_def r_def)
    have "(q * seg + r + seg - 1) div seg = Suc q"
      using r by (intro div_nat_eqI) (simp_all add: algebra_simps)
    then have "(tot + seg - 1) div seg = Suc (tot div seg)"
      unfolding t [symmetric] by (simp only: q_def)
    with False show ?thesis
      by (simp add: spec_segment_lengths_def spec_segments_total_def)
  qed
qed

lemma spec_segments_total_100:
  "spec_segments_total 104857600 seg = 100 \<longleftrightarrow> 1048576 \<le> seg \<and> seg \<le> 1059167"
proof (cases "seg = 0")
  case True
  then show ?thesis by (simp add: spec_segments_total_def)
next
  case False
  then have pos: "0 < seg" by simp
  have "(104857600 + seg - 1) div seg = 100 \<longleftrightarrow>
      100 * seg \<le> 104857600 + seg - 1 \<and> 104857600 + seg - 1 < 101 * seg"
  proof
    assume "(104857600 + seg - 1) div seg = 100"
    then have "100 \<le> (104857600 + seg - 1) div seg" "(104857600 + seg - 1) div seg < 101"
      by simp_all
    with pos show "100 * seg \<le> 104857600 + seg - 1 \<and> 104857600 + seg - 1 < 101 * seg"
      by (simp add: less_eq_div_iff_mult_less_eq div_less_iff_less_mult)
  next
    assume "100 * seg \<le> 104857600 + seg - 1 \<and> 104857600 + seg - 1 < 101 * seg"
    then show "(104857600 + seg - 1) div seg = 100"
      by (intro div_nat_eqI) (simp_all add: algebra_simps)
  qed
  with pos show ?thesis
    unfolding spec_segments_total_def by arith
qed

text \<open>
  C3, as the claim states it, fails for configurations other than the default one:
  \<open>start_offload\<close> sets \<open>total_bytes\<close> to 100 MiB and \<open>segments_total\<close> to 100 and never
  reads the configuration.  With \<open>segment_size\<close> configured as 2 MiB a successful start
  reports 100 segments, where \<open>ceil(total_bytes / segment_size)\<close> is 50.
\<close>

theorem segments_total_counterexample:
  "fst (start_offload [] 10 two_mib_manager) \<and>
   unat (segment_size (config (snd (start_offload [] 10 two_mib_manager)))) = 2097152 \<and>
   unat (total_bytes (progress (snd (start_offload [] 10 two_mib_manager)))) = 104857600 \<and>
   unat (segments_total (progress (snd (start_offload [] 10 two_mib_manager)))) = 100 \<and>
   spec_segments_total 104857600 2097152 = 50"
  by (simp add: two_mib_manager_def example_defs op_defs spec_segments_total_def)

text \<open>
  C3, amended.  For all configurations, after a successful \<open>start_offload\<close> with no start
  hook installed the progress record has \<open>total_bytes\<close> = 104857600 (all of it pending)
  and \<open>segments_total\<close> = 100 (all of them pending), whatever the configured
  \<open>segment_size\<close>.  So \<open>segments_total = ceil(total_bytes / segment_size)\<close> holds
  exactly when \<open>1048576 \<le> segment_size \<le> 1059167\<close>, the default 1 MiB among them; for
  such a \<open>segment_size\<close> the segment lengths (\<open>segment_size\<close> each, the last segment
  holding the remainder) are \<open>segments_total\<close> many and sum to \<open>total_bytes\<close>.
\<close>

theorem start_offload_segments:
  "start_hook m = None \<Longrightarrow> fst (start_offload ids now m) \<Longrightarrow>
   config (snd (start_offload ids now m)) = config m \<and>
   total_bytes (progress (snd (start_offload ids now m))) = 104857600 \<and>
   pending_bytes (progress (snd (start_offload ids now m))) = 104857600 \<and>
   transferred_bytes (progress (snd (start_offload ids now m))) = 0 \<and>
   segments_total (progress (snd (start_offload ids now m))) = 100 \<and>
   segments_pending (progress (snd (start_offload ids now m))) = 100 \<and>
   segments_completed (progress (snd (start_offload ids now m))) = 0 \<and>
   segments_failed (progress (snd (start_offload ids now m))) = 0 \<and>
   (unat (segments_total (progress (snd (start_offload ids now m)))) =
      spec_segments_total (unat (total_bytes (progress (snd (start_offload ids now m)))))
        (unat (segment_size (config m)))
    \<longleftrightarrow> 1048576 \<le> unat (segment_size (config m)) \<and>
        unat (segment_size (config m)) \<le> 1059167) \<and>
   (1048576 \<le> unat (segment_size (config m)) \<and> unat (segment_size (config m)) \<le> 1059167
    \<longrightarrow> length (spec_segment_lengths
            (unat (total_bytes (progress (snd (start_offload ids now m)))))
            (unat (segment_size (config m)))) =
          unat (segments_total (progress (snd (start_offload ids now m)))) \<and>
        sum_list (spec_segment_lengths
            (unat (total_bytes (progress (snd (start_offload ids now m)))))
            (unat (segment_size (config m)))) =
          unat (total_bytes (progress (snd (start_offload ids now m)))))"
proof -
  assume hook: "start_hook m = None" and ok: "fst (start_offload ids now m)"
  let ?p = "progress (snd (start_offload ids now m))"
  let ?seg = "unat (segment_size (config m))"
  from hook ok have c: "config (snd (start_offload ids now m)) = config m"
    by (auto simp: start_offload_def Let_def split: if_splits)
  from hook ok have p: "total_bytes ?p = 104857600" "pending_bytes ?p = 104857600"
    "transferred_bytes ?p = 0" "segments_total ?p = 100" "segments_pending ?p = 100"
    "segments_completed ?p = 0" "segments_failed ?p = 0"
    by (auto simp: start_offload_def Let_def default_OffloadProgress_def split: if_splits)
  have u: "unat (total_bytes ?p) = 104857600" "unat (segments_total ?p) = 100"
    by (simp_all add: p)
  have iff: "100 = spec_segments_total 104857600 ?seg \<longleftrightarrow>
      1048576 \<le> ?seg \<and> ?seg \<le> 1059167"
    using spec_segments_total_100 [of ?seg] by auto
  have lens: "length (spec_segment_lengths 104857600 ?seg) = 100 \<and>
      sum_list (spec_segment_lengths 104857600 ?seg) = 104857600"
    if "1048576 \<le> ?seg \<and> ?seg \<le> 1059167"
  proof -
    from that have "0 < ?seg" by simp
    from spec_segments_consistent [OF this, of 104857600] that iff show ?thesis
      by simp
  qed
  show ?thesis
    unfolding u c using p iff lens by blast
qed

theorem start_offload_segments_witness:
  "start_hook selected_manager = None \<and>
   fst (start_offload [] 10 selected_manager) \<and>
   unat (segment_size (config selected_manager)) = 1048576 \<and>
   total_bytes (progress (snd (start_offload [] 10 selected_manager))) = 104857600 \<and>
   segments_total (progress (snd (start_offload [] 10 selected_manager))) = 100 \<and>
   spec_segments_total 104857600 1048576 = 100 \<and>
   length (spec_segment_lengths 104857600 1048576) = 100 \<and>
   sum_list (spec_segment_lengths 104857600 1048576) = 104857600 \<and>
   start_hook two_mib_manager = None \<and>
   fst (start_offload [] 10 two_mib_manager) \<and>
   segments_total (progress (snd (start_offload [] 10 two_mib_manager))) = 100 \<and>
   spec_segments_total 104857600 2097152 \<noteq> 100"
proof -
  have h: "start_hook selected_manager = None" "fst (start_offload [] 10 selected_manager)"
    "unat (segment_size (config selected_manager)) = 1048576"
    by (simp_all add: example_defs op_defs)
  have k: "start_hook two_mib_manager = None" "fst (start_offload [] 10 two_mib_manager)"
    "unat (segment_size (config two_mib_manager)) = 2097152"
    by (simp_all add: two_mib_manager_def example_defs op_defs)
  have 1: "total_bytes (progress (snd (start_offload [] 10 selected_manager))) = 104857600"
    "segments_total (progress (snd (start_offload [] 10 selected_manager))) = 100"
    "spec_segments_total 104857600 1048576 = 100"
    "length (spec_segment_lengths 104857600 1048576) = 100"
    "sum_list (spec_segment_lengths 104857600 1048576) = 104857600"
    using start_offload_segments [OF h(1,2)] by (auto simp: h(3))
  have 2: "segments_total (progress (snd (start_offload [] 10 two_mib_manager))) = 100"
    "spec_segments_total 104857600 2097152 \<noteq> 100"
    using start_offload_segments [OF k(1,2)] by (auto simp: k(3))
  show ?thesis
    using h k 1 2 by (intro conjI) assumption+
qed

section \<open>Automatic selection of a target node\<close>

lemma placed_here:
  assumes "can_accept_offload r"
    and "\<forall>n \<in> set rest. can_accept_offload n \<longrightarrow>
           available_storage_bytes n \<le> available_storage_bytes r"
  shows "placed (r # rest) r"
  unfolding placed_def
proof (intro exI conjI)
  show "r # rest = [] @ r # rest" by simp
qed (use assms in simp_all)

lemma placed_later:
  assumes "placed rest r"
    and "can_accept_offload node \<longrightarrow>
           available_storage_bytes node < available_storage_bytes r"
  shows "placed (node # rest) r"
proof -
  from assms(1) obtain pre post where p: "rest = pre @ r # post" "can_accept_offload r"
    "\<forall>n \<in> set pre. can_accept_offload n \<longrightarrow>
       available_storage_bytes n < available_storage_bytes r"
    "\<forall>n \<in> set post. can_accept_offload n \<longrightarrow>
       available_storage_bytes n \<le> available_storage_bytes r"
    unfolding placed_def by blast
  show ?thesis
    unfolding placed_def
  proof (intro exI conjI)
    show "node # rest = (node # pre) @ r # post" by (simp add: p(1))
    show "\<forall>n \<in> set (node # pre). can_accept_offload n \<longrightarrow>
       available_storage_bytes n < available_storage_bytes r"
      using p(3) assms(2) by simp
  qed (rule p(2), rule p(4))
qed

lemma auto_select_loop_Some:
  "auto_select_loop ns (Some b0) = Some b0 \<and>
     (\<forall>n \<in> set ns. can_accept_offload n \<longrightarrow>
        available_storage_bytes n \<le> available_storage_bytes b0) \<or>
   (\<exists>r. auto_select_loop ns (Some b0) = Some r \<and> placed ns r \<and>
        available_storage_bytes b0 < available_storage_bytes r)"
proof (induction ns arbitrary: b0)
  case Nil
  then show ?case by simp
next
  case (Cons node rest)
  show ?case
  proof (cases "can_accept_offload node")
    case False
    then have step: "auto_select_loop (node # rest) (Some b0) = auto_select_loop rest (Some b0)"
      by simp
    from Cons.IH [of b0] show ?thesis
    proof
      assume "auto_select_loop rest (Some b0) = Some b0 \<and>
        (\<forall>n \<in> set rest. can_accept_offload n \<longrightarrow>
           available_storage_bytes n \<le> available_storage_bytes b0)"
      with False show ?thesis unfolding step by simp
    next
      assume "\<exists>r. auto_select_loop rest (Some b0) = Some r \<and> placed rest r \<and>
        available_storage_bytes b0 < available_storage_bytes r"
      then obtain r where r: "auto_select_loop rest (Some b0) = Some r" "placed rest r"
        "available_storage_bytes b0 < available_storage_bytes r" by blast
      from r(2) False have "placed (node # rest) r" by (simp add: placed_later)
      with r(1,3) show ?thesis unfolding step by blast
    qed
  next
    case True
    show ?thesis
    proof (cases "available_storage_bytes b0 < available_storage_bytes node")
      case bigger: True
      with True
      have step: "auto_select_loop (node # rest) (Some b0) = auto_select_loop rest (Some node)"
        by simp
      from Cons.IH [of node] show ?thesis
      proof
        assume a: "auto_select_loop rest (Some node) = Some node \<and>
          (\<forall>n \<in> set rest. can_accept_offload n \<longrightarrow>
             available_storage_bytes n \<le> available_storage_bytes node)"
        with True have "placed (node # rest) node" by (simp add: placed_here)
        with a bigger show ?thesis unfolding step by blast
      next
        assume "\<exists>r. auto_select_loop rest (Some node) = Some r \<and> placed rest r \<and>
          available_storage_bytes node < available_storage_bytes r"
        then obtain r where r: "auto_select_loop rest (Some node) = Some r" "placed rest r"
          "available_storage_bytes node < available_storage_bytes r" by blast
        from r(2,3) have "placed (node # rest) r" by (simp add: placed_later)
        moreover from bigger r(3)
        have "available_storage_bytes b0 < available_storage_bytes r" by simp
        ultimately show ?thesis using r(1) unfolding step by blast
      qed
    next
      case smaller: False
      with True
      have step: "auto_select_loop (node # rest) (Some b0) = auto_select_loop rest (Some b0)"
        by simp
      from smaller have le: "available_storage_bytes node \<le> available_storage_bytes b0"
        by simp
      from Cons.IH [of b0] show ?thesis
      proof
        assume "auto_select_loop rest (Some b0) = Some b0 \<and>
          (\<forall>n \<in> set rest. can_accept_offload n \<longrightarrow>
             available_storage_bytes n \<le> available_storage_bytes b0)"
        with le show ?thesis unfolding step by simp
      next
        assume "\<exists>r. auto_select_loop rest (Some b0) = Some r \<and> placed rest r \<and>
          available_storage_bytes b0 < available_storage_bytes r"
        then obtain r where r: "auto_select_loop rest (Some b0) = Some r" "placed rest r"
          "available_storage_bytes b0 < available_storage_bytes r" by blast
        from le r(3) have "available_storage_bytes node < available_storage_bytes r"
          by simp
        with r(2) have "placed (node # rest) r" by (simp add: placed_later)
        with r(1,3) show ?thesis unfolding step by blast
      qed
    qed
  qed
qed

lemma auto_select_loop_None:
  "auto_select_loop ns None = None \<and> (\<forall>n \<in> set ns. \<not> can_accept_offload n) \<or>
   (\<exists>r. auto_select_loop ns None = Some r \<and> placed ns r)"
proof (induction ns)
  case Nil
  then show ?case by simp
next
  case (Cons node rest)
  show ?case
  proof (cases "can_accept_offload node")
    case False
    then have step: "auto_select_loop (node # rest) None = auto_select_loop rest None"
      by simp
    from Cons.IH show ?thesis
    proof
      assume "auto_select_loop rest None = None \<and> (\<forall>n \<in> set rest. \<not> can_accept_offload n)"
      with False show ?thesis unfolding step by simp
    next
      assume "\<exists>r. auto_select_loop rest None = Some r \<and> placed rest r"
      then obtain r where r: "auto_select_loop rest None = Some r" "placed rest r" by blast
      from r(2) False have "placed (node # rest) r" by (simp add: placed_later)
      with r(1) show ?thesis unfolding step by blast
    qed
  next
    case True
    then have step: "auto_select_loop (node # rest) None = auto_select_loop rest (Some node)"
      by simp
    from auto_select_loop_Some [of rest node] show ?thesis
    proof
      assume a: "auto_select_loop rest (Some node) = Some node \<and>
        (\<forall>n \<in> set rest. can_accept_offload n \<longrightarrow>
           available_storage_bytes n \<le> available_storage_bytes node)"
      with True have "placed (node # rest) node" by (simp add: placed_here)
      with a show ?thesis unfolding step by blast
    next
      assume "\<exists>r. auto_select_loop rest (Some node) = Some r \<and> placed rest r \<and>
        available_storage_bytes node < available_storage_bytes r"
      then obtain r where r: "auto_select_loop rest (Some node) = Some r" "placed rest r"
        "available_storage_bytes node < available_storage_bytes r" by blast
      from r(2,3) have "placed (node # rest) r" by (simp add: placed_later)
      with r(1) show ?thesis unfolding step by blast
    qed
  qed
qed

lemma find_skip: "\<forall>n \<in> set pre. \<not> P n \<Longrightarrow> find P (pre @ ys) = find P ys"
  by (induction pre) simp_all

lemma placed_best_candidate:
  assumes "placed ns r"
  shows "best_candidate ns = Some r"
proof -
  from assms obtain pre post where p: "ns = pre @ r # post" "can_accept_offload r"
    "\<forall>n \<in> set pre. can_accept_offload n \<longrightarrow>
       available_storage_bytes n < available_storage_bytes r"
    "\<forall>n \<in> set post. can_accept_offload n \<longrightarrow>
       available_storage_bytes n \<le> available_storage_bytes r"
    unfolding placed_def by blast
  let ?P = "\<lambda>n. can_accept_offload n \<and>
      (\<forall>k \<in> set ns. can_accept_offload k \<longrightarrow>
         available_storage_bytes k \<le> available_storage_bytes n)"
  have r_in: "r \<in> set ns" by (simp add: p(1))
  have "\<not> ?P n" if "n \<in> set pre" for n
  proof
    assume n: "?P n"
    with p(3) that have "available_storage_bytes n < available_storage_bytes r" by blast
    moreover from n r_in p(2)
    have "available_storage_bytes r \<le> available_storage_bytes n" by blast
    ultimately show False by simp
  qed
  then have "find ?P ns = find ?P (r # post)"
    unfolding p(1) by (intro find_skip) blast
  moreover have "?P r"
  proof (intro conjI ballI impI)
    fix k assume "k \<in> set ns" "can_accept_offload k"
    with p(1,3,4) show "available_storage_bytes k \<le> available_storage_bytes r"
      by (auto simp: less_imp_le)
  qed (rule p(2))
  ultimately show ?thesis
    by (simp add: best_candidate_def)
qed

lemma auto_select_loop_best: "auto_select_loop ns None = best_candidate ns"
proof -
  from auto_select_loop_None [of ns] show ?thesis
  proof
    assume a: "auto_select_loop ns None = None \<and> (\<forall>n \<in> set ns. \<not> can_accept_offload n)"
    then have "best_candidate ns = None"
      by (simp add: best_candidate_def find_None_iff)
    with a show ?thesis by simp
  next
    assume "\<exists>r. auto_select_loop ns None = Some r \<and> placed ns r"
    then show ?thesis by (auto simp: placed_best_candidate)
  qed
qed

lemma best_candidate_None:
  "best_candidate ns = None \<longleftrightarrow> (\<forall>n \<in> set ns. \<not> can_accept_offload n)"
proof
  assume none: "best_candidate ns = None"
  from auto_select_loop_None [of ns] show "\<forall>n \<in> set ns. \<not> can_accept_offload n"
  proof
    assume "\<exists>r. auto_select_loop ns None = Some r \<and> placed ns r"
    with none show ?thesis by (simp add: auto_select_loop_best)
  qed simp
next
  assume "\<forall>n \<in> set ns. \<not> can_accept_offload n"
  then show "best_candidate ns = None"
    by (simp add: best_candidate_def find_None_iff)
qed

lemma best_candidate_Some:
  assumes "best_candidate ns = Some b"
  shows "b \<in> set ns" and "can_accept_offload b"
    and "\<forall>k \<in> set ns. can_accept_offload k \<longrightarrow>
           available_storage_bytes k \<le> available_storage_bytes b"
  using assms unfolding best_candidate_def find_Some_iff by auto

text \<open>
  C2, as the claim states it, fails: \<open>auto_select_target_node\<close> never reads the
  configuration and ranks by available storage alone.  A node that can accept offloads
  but has less than \<open>min_available_storage_bytes\<close> available and more CPU and memory in
  use than the configured maxima is selected.  Of two admissible nodes of the same region
  and the same available storage, the one listed first is selected, although the other
  has fewer active offloads and the lexically smaller id.
\<close>

theorem auto_select_counterexample:
  "fst (auto_select_target_node weak_manager) \<and>
   current_target (snd (auto_select_target_node weak_manager)) = Some weak_node \<and>
   \<not> spec_admissible (config weak_manager) weak_node \<and>
   available_storage_bytes weak_node < min_available_storage_bytes (config weak_manager) \<and>
   max_target_cpu_usage (config weak_manager) < cpu_usage_percent weak_node \<and>
   max_target_memory_usage (config weak_manager) < memory_usage_percent weak_node \<and>
   fst (auto_select_target_node tie_manager) \<and>
   current_target (snd (auto_select_target_node tie_manager)) = Some tie_b \<and>
   available_nodes tie_manager = [tie_b, tie_a] \<and>
   spec_admissible (config tie_manager) tie_a \<and>
   spec_admissible (config tie_manager) tie_b \<and>
   region tie_a = region tie_b \<and>
   available_storage_bytes tie_a = available_storage_bytes tie_b \<and>
   active_offload_count tie_a < active_offload_count tie_b \<and>
   lexical_less (node_id tie_a) (node_id tie_b)"
  by (simp add: weak_manager_def weak_node_def tie_manager_def tie_a_def tie_b_def
      spec_admissible_def example_defs op_defs)

text \<open>
  C2, amended.  For every node list and configuration, \<open>auto_select_target_node\<close>
  considers only the nodes that pass the admission predicate (\<open>accepting_offloads\<close>,
  health \<open>Healthy\<close>, \<open>active_offload_count < max_concurrent_offloads\<close>); the
  configuration is not consulted.  Among those it selects a node with the greatest
  \<open>available_storage_bytes\<close>, ties broken by position in the node list: the first such
  node.  It succeeds exactly when some node passes the admission predicate; otherwise it
  returns false and selects nothing, leaving the prior selection, and everything else but
  the error notification, as it was.
\<close>

theorem auto_select_target_node_best:
  "auto_select_target_node m =
     (case best_candidate (available_nodes m) of
        Some b \<Rightarrow> (True, m\<lparr>current_target := Some b\<rparr>)
      | None \<Rightarrow> (False, notify_error ''No suitable target node available'' m)) \<and>
   fst (auto_select_target_node m) =
     (\<exists>n \<in> set (available_nodes m). can_accept_offload n) \<and>
   (\<forall>b. best_candidate (available_nodes m) = Some b \<longrightarrow>
      b \<in> set (available_nodes m) \<and> can_accept_offload b \<and>
      (\<forall>k \<in> set (available_nodes m). can_accept_offload k \<longrightarrow>
         available_storage_bytes k \<le> available_storage_bytes b)) \<and>
   (\<not> fst (auto_select_target_node m) \<longrightarrow>
      current_target (snd (auto_select_target_node m)) = current_target m \<and>
      (snd (auto_select_target_node m))\<lparr>events := events m\<rparr> = m)"
proof -
  have eq: "auto_select_target_node m =
     (case best_candidate (available_nodes m) of
        Some b \<Rightarrow> (True, m\<lparr>current_target := Some b\<rparr>)
      | None \<Rightarrow> (False, notify_error ''No suitable target node available'' m))"
    by (simp add: auto_select_target_node_def auto_select_loop_best)
  have ok: "fst (auto_select_target_node m) =
     (\<exists>n \<in> set (available_nodes m). can_accept_offload n)"
    using best_candidate_None [of "available_nodes m"]
    unfolding eq by (cases "best_candidate (available_nodes m)") auto
  have fail: "current_target (snd (auto_select_target_node m)) = current_target m \<and>
      (snd (auto_select_target_node m))\<lparr>events := events m\<rparr> = m"
    if "\<not> fst (auto_select_target_node m)"
    using that unfolding eq
    by (cases "best_candidate (available_nodes m)")
       (simp_all add: notify_error_events_only)
  from eq ok fail best_candidate_Some [of "available_nodes m"] show ?thesis
    by blast
qed

theorem auto_select_target_node_best_witness:
  "fst (auto_select_target_node example_manager) \<and>
   map_option node_id (current_target (snd (auto_select_target_node example_manager))) =
     Some ''node2'' \<and>
   map_option available_storage_bytes
     (current_target (snd (auto_select_target_node example_manager))) = Some 214748364800 \<and>
   \<not> fst (auto_select_target_node no_nodes_manager) \<and>
   current_target (snd (auto_select_target_node no_nodes_manager)) =
     current_target no_nodes_manager \<and>
   map_option node_id (current_target no_nodes_manager) = Some ''node1''"
proof -
  have b: "best_candidate (available_nodes example_manager) = Some second_node"
    by (simp add: best_candidate_def second_node_def example_defs op_defs)
  have n: "available_nodes no_nodes_manager = []"
    "map_option node_id (current_target no_nodes_manager) = Some ''node1''"
    by (simp_all add: no_nodes_manager_def example_defs op_defs)
  have s: "node_id second_node = ''node2''"
    "available_storage_bytes second_node = 214748364800"
    by (simp_all add: second_node_def op_defs)
  have 1: "auto_select_target_node example_manager =
      (True, example_manager\<lparr>current_target := Some second_node\<rparr>)"
    using auto_select_target_node_best [of example_manager] by (simp add: b)
  have 2: "\<not> fst (auto_select_target_node no_nodes_manager)"
    "current_target (snd (auto_select_target_node no_nodes_manager)) =
       current_target no_nodes_manager"
    using auto_select_target_node_best [of no_nodes_manager] by (simp_all add: n(1))
  show ?thesis
    using 2 n(2) by (simp add: 1 s)
qed

section \<open>Status-change notifications\<close>

lemma status_changes_append:
  "status_changes (es @ fs) = status_changes es @ status_changes fs"
  by (induction es rule: status_changes.induct) simp_all

lemma events_set_status_calls:
  "status_change_callback m \<Longrightarrow>
   events (set_status st m) = events m @ status_calls (status m) st"
  by (simp add: events_set_status status_calls_def)

lemma events_notify_error_calls:
  "events (notify_error e m) = events m @ error_calls m e"
  by (simp add: notify_error_def error_calls_def)

lemma events_notify_complete_calls:
  "events (notify_complete ok now m) = events m @ complete_calls (notify_complete ok now m)"
  by (simp add: notify_complete_def complete_calls_def Let_def)

lemma quiet_select_loop:
  "status (snd (select_loop ns nid m)) = status m \<and>
   (\<exists>evs. events (snd (select_loop ns nid m)) = events m @ evs \<and> status_changes evs = [])"
  by (induction ns) (simp_all add: notify_error_def)

lemma quiet_step:
  assumes "\<not> writes_status op"
  shows "status (step op m) = status m \<and>
   (\<exists>evs. events (step op m) = events m @ evs \<and> status_changes evs = [])"
proof (cases op)
  case (SelectTargetNode nid)
  then show ?thesis
    using quiet_select_loop [of "available_nodes m" nid m]
    by (simp add: select_target_node_def split: option.splits)
next
  case AutoSelectTargetNode
  then show ?thesis
    by (simp add: auto_select_target_node_def notify_error_def split: option.splits)
next
  case (SimulateProgress bytes now now')
  then show ?thesis
    by (simp add: simulate_progress_def notify_progress_def Let_def)
qed (insert assms, simp_all add: refresh_nodes_def clear_target_selection_def
    remove_node_def set_node_health_def)

lemma pause_calls:
  "status_change_callback m \<Longrightarrow>
   events (snd (pause_offload m)) =
     events m @ (if status m = Transferring
                 then [StatusChangeEvent Transferring Paused]
                 else error_calls m ''Cannot pause: not transferring'')"
  by (simp add: pause_offload_def events_set_status events_notify_error_calls)

lemma resume_calls:
  "status_change_callback m \<Longrightarrow>
   events (snd (resume_offload m)) =
     events m @ (if status m = Paused
                 then [StatusChangeEvent Paused Transferring]
                 else error_calls m ''Cannot resume: not paused'')"
  by (simp add: resume_offload_def events_set_status events_notify_error_calls)

lemma start_calls:
  "status_change_callback m \<Longrightarrow>
   events (snd (start_offload ids now m)) =
     events m @
     (case start_hook m of
        Some result \<Rightarrow> (if result then status_calls (status m) Transferring else [])
      | None \<Rightarrow>
          if current_target m = None
          then error_calls m ''No target node selected''
          else if status m \<noteq> Idle \<and> status m \<noteq> Paused
          then error_calls m ''Offload already in progress or not in valid state''
          else [StatusChangeEvent (status m) Preparing,
                StatusChangeEvent Preparing Transferring])"
  by (auto simp: start_offload_def Let_def events_set_status status_calls_def
      events_notify_error_calls split: option.splits)

lemma cancel_calls:
  "status_change_callback m \<Longrightarrow>
   events (snd (cancel_offload now m)) =
     events m @
     (case cancel_hook m of
        Some result \<Rightarrow> []
      | None \<Rightarrow>
          if is_active m
          then [StatusChangeEvent (status m) Cancelled]
               @ complete_calls (snd (cancel_offload now m))
          else error_calls m ''No active offload to cancel'')"
  by (cases "status m")
     (simp_all add: cancel_offload_def is_active_def events_set_status
        events_notify_error_calls events_notify_complete_calls split: option.splits)

lemma simulate_complete_calls:
  "status_change_callback m \<Longrightarrow>
   events (simulate_complete ok now m) =
     events m @
     (if ok
      then status_calls (status m) Completing @ [StatusChangeEvent Completing Completed]
      else status_calls (status m) Failed)
     @ complete_calls (simulate_complete ok now m)"
  unfolding simulate_complete_def Let_def
  by (simp add: events_notify_complete_calls events_set_status status_calls_def)

lemma simulate_error_calls:
  "status_change_callback m \<Longrightarrow>
   events (simulate_error err now m) =
     events m @ status_calls (status m) Failed @ error_calls m err
     @ complete_calls (simulate_error err now m)"
  unfolding simulate_error_def Let_def
  by (simp add: events_notify_complete_calls events_notify_error_calls events_set_status
      status_calls_def error_calls_def notify_error_def)

lemma status_after_step:
  "status (step (StartOffload ids now) m) =
     (case start_hook m of
        Some result \<Rightarrow> (if result then Transferring else status m)
      | None \<Rightarrow>
          if current_target m \<noteq> None \<and> (status m = Idle \<or> status m = Paused)
          then Transferring else status m)"
  "status (step PauseOffload m) = (if status m = Transferring then Paused else status m)"
  "status (step ResumeOffload m) = (if status m = Paused then Transferring else status m)"
  "status (step (CancelOffload now) m) =
     (case cancel_hook m of
        Some result \<Rightarrow> status m
      | None \<Rightarrow> if is_active m then Cancelled else status m)"
  "status (step (SimulateComplete ok now) m) = (if ok then Completed else Failed)"
  "status (step (SimulateError err now) m) = Failed"
  "status (step (ForceStatus st) m) = st"
proof -
  show "status (step (CancelOffload now) m) =
     (case cancel_hook m of
        Some result \<Rightarrow> status m
      | None \<Rightarrow> if is_active m then Cancelled else status m)"
    by (cases "status m")
       (simp_all add: cancel_offload_def is_active_def split: option.splits)
qed (auto simp: start_offload_def pause_offload_def resume_offload_def
    simulate_complete_def simulate_error_def force_status_def Let_def
    split: option.splits)

text \<open>
  With a status-change callback stored, every operation other than \<open>reset\<close> makes
  exactly the calls listed here, in this order.  \<open>set_status\<close> stores the new status and
  makes one call (old, new) when the two differ.  An operation that does not write the
  status makes no status-change call and leaves the status.  Each of the others makes one
  status-change call per write that changes the status, before the error and completion
  calls that follow the write in the source: an accepted \<open>start_offload\<close> the two calls
  (previous, \<open>Preparing\<close>), (\<open>Preparing\<close>, \<open>Transferring\<close>); a start hook answering true
  the call (previous, \<open>Transferring\<close>); \<open>pause_offload\<close> and \<open>resume_offload\<close> one call
  when accepted; an accepted \<open>cancel_offload\<close> the call (previous, \<open>Cancelled\<close>) and then
  the completion call; \<open>simulate_complete(true)\<close> the calls (previous, \<open>Completing\<close>),
  (\<open>Completing\<close>, \<open>Completed\<close>) and then the completion call; \<open>simulate_complete(false)\<close>
  and \<open>simulate_error\<close> the call (previous, \<open>Failed\<close>) before the error and completion
  calls; \<open>force_status\<close> the call of \<open>set_status\<close>.  A rejected operation makes the
  error call only.  The status each operation leaves is the one its last call announces,
  or the one it found when it makes no status-change call.
\<close>

theorem status_change_calls_exact:
  "status_change_callback m \<Longrightarrow>
   (status (set_status st m) = st \<and>
    events (set_status st m) = events m @ status_calls (status m) st) \<and>
   (\<not> writes_status op \<longrightarrow>
      status (step op m) = status m \<and>
      (\<exists>evs. events (step op m) = events m @ evs \<and> status_changes evs = [])) \<and>
   events (step (StartOffload ids now) m) =
     events m @
     (case start_hook m of
        Some result \<Rightarrow> (if result then status_calls (status m) Transferring else [])
      | None \<Rightarrow>
          if current_target m = None
          then error_calls m ''No target node selected''
          else if status m \<noteq> Idle \<and> status m \<noteq> Paused
          then error_calls m ''Offload already in progress or not in valid state''
          else [StatusChangeEvent (status m) Preparing,
                StatusChangeEvent Preparing Transferring]) \<and>
   events (step PauseOffload m) =
     events m @ (if status m = Transferring
                 then [StatusChangeEvent Transferring Paused]
                 else error_calls m ''Cannot pause: not transferring'') \<and>
   events (step ResumeOffload m) =
     events m @ (if status m = Paused
                 then [StatusChangeEvent Paused Transferring]
                 else error_calls m ''Cannot resume: not paused'') \<and>
   events (step (CancelOffload now) m) =
     events m @
     (case cancel_hook m of
        Some result \<Rightarrow> []
      | None \<Rightarrow>
          if is_active m
          then [StatusChangeEvent (status m) Cancelled]
               @ complete_calls (step (CancelOffload now) m)
          else error_calls m ''No active offload to cancel'') \<and>
   events (step (SimulateComplete ok now) m) =
     events m @
     (if ok
      then status_calls (status m) Completing @ [StatusChangeEvent Completing Completed]
      else status_calls (status m) Failed)
     @ complete_calls (step (SimulateComplete ok now) m) \<and>
   events (step (SimulateError err now) m) =
     events m @ status_calls (status m) Failed @ error_calls m err
     @ complete_calls (step (SimulateError err now) m) \<and>
   events (step (ForceStatus st) m) = events m @ status_calls (status m) st \<and>
   status (step (StartOffload ids now) m) =
     (case start_hook m of
        Some result \<Rightarrow> (if result then Transferring else status m)
      | None \<Rightarrow>
          if current_target m \<noteq> None \<and> (status m = Idle \<or> status m = Paused)
          then Transferring else status m) \<and>
   status (step PauseOffload m) = (if status m = Transferring then Paused else status m) \<and>
   status (step ResumeOffload m) = (if status m = Paused then Transferring else status m) \<and>
   status (step (CancelOffload now) m) =
     (case cancel_hook m of
        Some result \<Rightarrow> status m
      | None \<Rightarrow> if is_active m then Cancelled else status m) \<and>
   status (step (SimulateComplete ok now) m) = (if ok then Completed else Failed) \<and>
   status (step (SimulateError err now) m) = Failed \<and>
   status (step (ForceStatus st) m) = st"
proof -
  assume cb: "status_change_callback m"
  have A1: "status (set_status st m) = st"
    by simp
  have A2: "events (set_status st m) = events m @ status_calls (status m) st"
    using cb by (simp add: events_set_status_calls)
  have B: "\<not> writes_status op \<longrightarrow>
      status (step op m) = status m \<and>
      (\<exists>evs. events (step op m) = events m @ evs \<and> status_changes evs = [])"
    using quiet_step [of op m] by blast
  have S: "events (step (StartOffload ids now) m) =
     events m @
     (case start_hook m of
        Some result \<Rightarrow> (if result then status_calls (status m) Transferring else [])
      | None \<Rightarrow>
          if current_target m = None
          then error_calls m ''No target node selected''
          else if status m \<noteq> Idle \<and> status m \<noteq> Paused
          then error_calls m ''Offload already in progress or not in valid state''
          else [StatusChangeEvent (status m) Preparing,
                StatusChangeEvent Preparing Transferring])"
    unfolding step.simps by (rule start_calls [OF cb])
  have P: "events (step PauseOffload m) =
     events m @ (if status m = Transferring
                 then [StatusChangeEvent Transferring Paused]
                 else error_calls m ''Cannot pause: not transferring'')"
    unfolding step.simps by (rule pause_calls [OF cb])
  have R: "events (step ResumeOffload m) =
     events m @ (if status m = Paused
                 then [StatusChangeEvent Paused Transferring]
                 else error_calls m ''Cannot resume: not paused'')"
    unfolding step.simps by (rule resume_calls [OF cb])
  have C: "events (step (CancelOffload now) m) =
     events m @
     (case cancel_hook m of
        Some result \<Rightarrow> []
      | None \<Rightarrow>
          if is_active m
          then [StatusChangeEvent (status m) Cancelled]
               @ complete_calls (step (CancelOffload now) m)
          else error_calls m ''No active offload to cancel'')"
    unfolding step.simps by (rule cancel_calls [OF cb])
  have K: "events (step (SimulateComplete ok now) m) =
     events m @
     (if ok
      then status_calls (status m) Completing @ [StatusChangeEvent Completing Completed]
      else status_calls (status m) Failed)
     @ complete_calls (step (SimulateComplete ok now) m)"
    unfolding step.simps by (rule simulate_complete_calls [OF cb])
  have E: "events (step (SimulateError err now) m) =
     events m @ status_calls (status m) Failed @ error_calls m err
     @ complete_calls (step (SimulateError err now) m)"
    unfolding step.simps by (rule simulate_error_calls [OF cb])
  have F: "events (step (ForceStatus st) m) = events m @ status_calls (status m) st"
    using cb by (simp add: force_status_def events_set_status_calls)
  have T1: "status (step (StartOffload ids now) m) =
     (case start_hook m of
        Some result \<Rightarrow> (if result then Transferring else status m)
      | None \<Rightarrow>
          if current_target m \<noteq> None \<and> (status m = Idle \<or> status m = Paused)
          then Transferring else status m)"
    by (rule status_after_step)
  have T2: "status (step PauseOffload m) =
      (if status m = Transferring then Paused else status m)"
    by (rule status_after_step)
  have T3: "status (step ResumeOffload m) =
      (if status m = Paused then Transferring else status m)"
    by (rule status_after_step)
  have T4: "status (step (CancelOffload now) m) =
     (case cancel_hook m of
        Some result \<Rightarrow> status m
      | None \<Rightarrow> if is_active m then Cancelled else status m)"
    by (rule status_after_step)
  have T5: "status (step (SimulateComplete ok now) m) = (if ok then Completed else Failed)"
    by (rule status_after_step)
  have T6: "status (step (SimulateError err now) m) = Failed"
    by (rule status_after_step)
  have T7: "status (step (ForceStatus st) m) = st"
    by (rule status_after_step)
  from A1 A2 B S P R C K E F T1 T2 T3 T4 T5 T6 T7 show ?thesis
    by (intro conjI) assumption+
qed

text \<open>
  C7.  The claim holds of every operation but \<open>reset\<close>, and the code breaks it there:
  \<open>reset\<close> is the one operation that assigns the status without going through
  \<open>set_status\<close>.  On a manager whose status is not \<open>Idle\<close> and whose status-change
  callback is stored, \<open>reset\<close> returns the status to \<open>Idle\<close>, leaves the callback stored
  and makes no call to it, where the claim requires one call with (previous, \<open>Idle\<close>);
  the sibling helper \<open>force_status(Idle)\<close> makes exactly that call.
\<close>

theorem reset_skips_status_callback:
  "status_change_callback m \<Longrightarrow> status m \<noteq> Idle \<Longrightarrow>
   status (step (Reset t1 t2 t3) m) = Idle \<and>
   status_change_callback (step (Reset t1 t2 t3) m) \<and>
   events (step (Reset t1 t2 t3) m) = events m \<and>
   status (step (ForceStatus Idle) m) = Idle \<and>
   events (step (ForceStatus Idle) m) = events m @ [StatusChangeEvent (status m) Idle]"
  by (simp add: reset_def force_status_def events_set_status)

theorem reset_skips_status_callback_witness:
  "status_change_callback completed_observed_manager \<and>
   status completed_observed_manager = Completed \<and>
   events completed_observed_manager =
     [StatusChangeEvent Idle Preparing, StatusChangeEvent Preparing Transferring,
      StatusChangeEvent Transferring Completing, StatusChangeEvent Completing Completed] \<and>
   status (step (Reset 31 32 33) completed_observed_manager) = Idle \<and>
   status_change_callback (step (Reset 31 32 33) completed_observed_manager) \<and>
   events (step (Reset 31 32 33) completed_observed_manager) =
     events completed_observed_manager \<and>
   events (step (ForceStatus Idle) completed_observed_manager) =
     events completed_observed_manager @ [StatusChangeEvent Completed Idle]"
proof -
  have h: "status_change_callback completed_observed_manager"
    "status completed_observed_manager = Completed"
    "events completed_observed_manager =
       [StatusChangeEvent Idle Preparing, StatusChangeEvent Preparing Transferring,
        StatusChangeEvent Transferring Completing, StatusChangeEvent Completing Completed]"
    by (simp_all add: completed_observed_manager_def observed_manager_def example_defs op_defs)
  have n: "status completed_observed_manager \<noteq> Idle"
    by (simp add: h(2))
  note r = reset_skips_status_callback [OF h(1) n, of 31 32 33]
  from r have 1: "status (step (Reset 31 32 33) completed_observed_manager) = Idle"
    and 2: "status_change_callback (step (Reset 31 32 33) completed_observed_manager)"
    and 3: "events (step (Reset 31 32 33) completed_observed_manager) =
       events completed_observed_manager"
    by blast+
  from r have 4: "events (step (ForceStatus Idle) completed_observed_manager) =
     events completed_observed_manager @ [StatusChangeEvent Completed Idle]"
    unfolding h(2) by blast
  show ?thesis
    using h 1 2 3 4 by (intro conjI) assumption+
qed

end
